theory Spec2Isabelle
  imports Main
begin

section \<open>Values of the host language\<close>

text \<open>
  The SDK handles values it does not inspect (\<open>unknown\<close> in the source): bound SQL
  parameters, result rows, the fields of a parsed JSON document. They are modelled by one
  datatype of JavaScript values. An object is the list of its own enumerable properties in
  the order in which \<open>Object.keys\<close> and \<open>Object.values\<close> enumerate them. Numbers are
  restricted to integers: no operation of the SDK computes with them.
\<close>

datatype jsval =
    JUndefined
  | JNull
  | JBool bool
  | JNum int
  | JStr string
  | JArr "jsval list"
  | JObj "(string \<times> jsval) list"

text \<open>\<open>v === undefined || v === null\<close>, the test behind \<open>??\<close> and \<open>?.\<close>.\<close>

fun nullish :: "jsval \<Rightarrow> bool" where
  "nullish JUndefined = True"
| "nullish JNull = True"
| "nullish _ = False"

text \<open>\<open>a ?? b\<close> on values that are already evaluated.\<close>

definition coalesce :: "jsval \<Rightarrow> jsval \<Rightarrow> jsval" where
  "coalesce a b = (if nullish a then b else a)"

text \<open>Truthiness, as tested by \<open>!v\<close> and by the condition of \<open>c ? a : b\<close>.\<close>

fun truthy :: "jsval \<Rightarrow> bool" where
  "truthy JUndefined = False"
| "truthy JNull = False"
| "truthy (JBool b) = b"
| "truthy (JNum n) = (n \<noteq> 0)"
| "truthy (JStr s) = (s \<noteq> [])"
| "truthy (JArr _) = True"
| "truthy (JObj _) = True"

text \<open>
  A field typed \<open>T | null | undefined\<close> (an optional, nullable field of a typed result):
  \<open>Absent\<close> is \<open>undefined\<close>.
\<close>

datatype 'a nullable = Absent | Null | Present 'a

text \<open>\<open>x ?? d\<close> on such a field.\<close>

fun or_default :: "'a nullable \<Rightarrow> 'a \<Rightarrow> 'a" where
  "or_default (Present v) d = v"
| "or_default Absent d = d"
| "or_default Null d = d"

text \<open>\<open>Array.prototype.join\<close> on an array of strings.\<close>

fun join :: "string \<Rightarrow> string list \<Rightarrow> string" where
  "join sep [] = []"
| "join sep [x] = x"
| "join sep (x # y # ys) = x @ sep @ join sep (y # ys)"


section \<open>The Request Gateway\<close>

text \<open>
  Modelled from the spec: the table \<open>HAEXTENSION_METHODS.database\<close> of \<open>../methods\<close> is
  not part of the sources at hand; the spec describes its entries as distinct names, a
  fixed enumeration of opaque constants that the host recognises. These are the four
  entries that \<open>DatabaseAPI\<close> uses.
\<close>

datatype method_id =
    Database_query
  | Database_execute
  | Database_transaction
  | Database_registerMigrations

text \<open>A migration, \<open>{ name: string; sql: string }\<close>; the SDK never reads its fields.\<close>

datatype Migration = Migration (migration_name: string) (migration_sql: string)

text \<open>The three shapes of payload object that \<open>DatabaseAPI\<close> builds.\<close>

datatype payload =
    Query_payload (payload_query: string) (payload_params: "jsval list")
  | Statements_payload "string list"
  | Migrations_payload string "Migration list"

text \<open>
  Modelled from the spec: the type \<open>DatabaseQueryResult\<close> of \<open>../types\<close> is not part of
  the sources at hand; the spec calls it the typed result of the gateway, with the
  last-inserted identifier that the host reports. Its fields here are the three that
  \<open>DatabaseAPI\<close> reads: the rows of a query, the number of affected rows, and the
  last-inserted identifier, which the source treats as possibly \<open>null\<close> or \<open>undefined\<close>.
\<close>

record DatabaseQueryResult =
  rows :: "jsval list"
  rowsAffected :: int
  lastInsertId :: "int nullable"

text \<open>
  Modelled from the spec: the type \<open>MigrationResult\<close> of \<open>../types\<close> is not part of the
  sources at hand. The spec gives it a count of migrations newly applied in this call, a
  count of migrations already applied before, and the names of the applied migrations.
\<close>

record MigrationResult =
  appliedCount :: nat
  alreadyAppliedCount :: nat
  appliedMigrations :: "string list"

text \<open>
  A promise is a computation over the world \<open>'w\<close> outside the SDK (the host, the channel):
  it settles with a rejection \<open>Inl e\<close> or a value \<open>Inr v\<close> and leaves the world changed.
  The SDK keeps no state of its own, so the world is the only state there is.
\<close>

type_synonym ('e, 'w, 'a) promise = "'w \<Rightarrow> ('e + 'a) \<times> 'w"

text \<open>
  \<open>client.request<TResult>(name, payload)\<close>: the injected gateway, at the result type
  \<open>'r\<close> at which a call site instantiates it.
\<close>

type_synonym ('e, 'w, 'r) client = "method_id \<Rightarrow> payload \<Rightarrow> ('e, 'w, 'r) promise"

text \<open>\<open>const x = await p; k(x)\<close> inside an async function: a rejection of \<open>p\<close> rejects the
  function's own promise with the same reason, and what follows does not run.\<close>

definition await :: "('e, 'w, 'a) promise \<Rightarrow> ('a \<Rightarrow> ('e, 'w, 'b) promise) \<Rightarrow> ('e, 'w, 'b) promise" where
  "await p k w = (case p w of (Inl e, w') \<Rightarrow> (Inl e, w') | (Inr a, w') \<Rightarrow> k a w')"

text \<open>\<open>return v\<close> inside an async function.\<close>

definition resolve :: "'a \<Rightarrow> ('e, 'w, 'a) promise" where
  "resolve v w = (Inr v, w)"

text \<open>
  A gateway that also records every request it receives, in order. Running an operation
  on \<open>traced request\<close> from an empty record shows which gateway calls the operation makes.
\<close>

definition traced :: "('e, 'w, 'r) client \<Rightarrow> ('e, 'w \<times> (method_id \<times> payload) list, 'r) client" where
  "traced request m p = (\<lambda>(w, calls). case request m p w of (r, w') \<Rightarrow> (r, (w', calls @ [(m, p)])))"


section \<open>DatabaseAPI\<close>

text \<open>
  \<open>src/api/database.ts\<close> holds the class twice: over \<open>HaexHubClient\<close> (lines 5 to 130) and
  over \<open>HaexVaultClient\<close> (lines 135 to 269). The two texts differ in
  \<open>registerMigrationsAsync\<close> only, which is therefore modelled twice; every other member
  has one definition that stands for both.
\<close>

text \<open>\<open>params || []\<close> for an optional array: an array, even an empty one, is truthy.\<close>

definition params_or_empty :: "jsval list option \<Rightarrow> jsval list" where
  "params_or_empty params = (case params of None \<Rightarrow> [] | Some ps \<Rightarrow> ps)"

definition query :: "('e, 'w, DatabaseQueryResult) client \<Rightarrow> string \<Rightarrow> jsval list option \<Rightarrow> ('e, 'w, jsval list) promise" where
  "query request q params =
     await (request Database_query (Query_payload q (params_or_empty params)))
       (\<lambda>result. resolve (rows result))"

text \<open>\<open>rows.length > 0 ? rows[0] ?? null : null\<close>\<close>

definition queryOne :: "('e, 'w, DatabaseQueryResult) client \<Rightarrow> string \<Rightarrow> jsval list option \<Rightarrow> ('e, 'w, jsval) promise" where
  "queryOne request q params =
     await (query request q params)
       (\<lambda>rs. resolve (if length rs > 0 then coalesce (rs ! 0) JNull else JNull))"

definition execute :: "('e, 'w, DatabaseQueryResult) client \<Rightarrow> string \<Rightarrow> jsval list option \<Rightarrow> ('e, 'w, DatabaseQueryResult) promise" where
  "execute request q params =
     request Database_execute (Query_payload q (params_or_empty params))"

definition transaction :: "('e, 'w, 'r) client \<Rightarrow> string list \<Rightarrow> ('e, 'w, unit) promise" where
  "transaction request statements =
     await (request Database_transaction (Statements_payload statements))
       (\<lambda>_. resolve ())"

definition createTable :: "('e, 'w, DatabaseQueryResult) client \<Rightarrow> string \<Rightarrow> string \<Rightarrow> ('e, 'w, unit) promise" where
  "createTable request tableName columns =
     (let q = ''CREATE TABLE IF NOT EXISTS '' @ tableName @ '' ('' @ columns @ '')''
      in await (execute request q None) (\<lambda>_. resolve ()))"

definition dropTable :: "('e, 'w, DatabaseQueryResult) client \<Rightarrow> string \<Rightarrow> ('e, 'w, unit) promise" where
  "dropTable request tableName =
     (let q = ''DROP TABLE IF EXISTS '' @ tableName
      in await (execute request q None) (\<lambda>_. resolve ()))"

text \<open>Lines 62 to 70, the class over \<open>HaexHubClient\<close>: declared \<open>Promise<void>\<close>, the
  gateway's answer is awaited and dropped.\<close>

definition registerMigrationsAsync_HaexHub :: "('e, 'w, 'r) client \<Rightarrow> string \<Rightarrow> Migration list \<Rightarrow> ('e, 'w, unit) promise" where
  "registerMigrationsAsync_HaexHub request extensionVersion migrations =
     await (request Database_registerMigrations (Migrations_payload extensionVersion migrations))
       (\<lambda>_. resolve ())"

text \<open>Lines 198 to 209, the class over \<open>HaexVaultClient\<close>: the gateway's promise is
  returned as it is.\<close>

definition registerMigrationsAsync :: "('e, 'w, MigrationResult) client \<Rightarrow> string \<Rightarrow> Migration list \<Rightarrow> ('e, 'w, MigrationResult) promise" where
  "registerMigrationsAsync request extensionVersion migrations =
     request Database_registerMigrations (Migrations_payload extensionVersion migrations)"

text \<open>\<open>DatabaseAPI.insert\<close>, named \<open>insert_row\<close> here because \<open>insert\<close> is taken by the
  library of sets. \<open>data\<close> is a \<open>Record<string, unknown>\<close>: its properties in enumeration order, so
  that \<open>Object.keys(data)\<close> is \<open>map fst data\<close> and \<open>Object.values(data)\<close> is \<open>map snd data\<close>.\<close>

definition insert_row :: "('e, 'w, DatabaseQueryResult) client \<Rightarrow> string \<Rightarrow> (string \<times> jsval) list \<Rightarrow> ('e, 'w, int) promise" where
  "insert_row request tableName data =
     (let keys = map fst data;
          values = map snd data;
          placeholders = join '', '' (map (\<lambda>_. ''?'') keys);
          q = ''INSERT INTO '' @ tableName @ '' ('' @ join '', '' keys @ '') VALUES ('' @ placeholders @ '')''
      in await (execute request q (Some values))
           (\<lambda>result. resolve (or_default (lastInsertId result) (- 1))))"

definition update :: "('e, 'w, DatabaseQueryResult) client \<Rightarrow> string \<Rightarrow> (string \<times> jsval) list \<Rightarrow> string \<Rightarrow> jsval list option \<Rightarrow> ('e, 'w, int) promise" where
  "update request tableName data where whereParams =
     (let keys = map fst data;
          values = map snd data;
          setClause = join '', '' (map (\<lambda>key. key @ '' = ?'') keys);
          q = ''UPDATE '' @ tableName @ '' SET '' @ setClause @ '' WHERE '' @ where
      in await (execute request q (Some (values @ params_or_empty whereParams)))
           (\<lambda>result. resolve (rowsAffected result)))"

definition delete :: "('e, 'w, DatabaseQueryResult) client \<Rightarrow> string \<Rightarrow> string \<Rightarrow> jsval list option \<Rightarrow> ('e, 'w, int) promise" where
  "delete request tableName where whereParams =
     (let q = ''DELETE FROM '' @ tableName @ '' WHERE '' @ where
      in await (execute request q whereParams)
           (\<lambda>result. resolve (rowsAffected result)))"

text \<open>Reading a property that no built-in prototype defines, without a throw: \<open>v?.key\<close>
  on a value that may be \<open>null\<close>.\<close>

fun optional_prop :: "jsval \<Rightarrow> string \<Rightarrow> jsval" where
  "optional_prop (JObj props) key = (case map_of props key of None \<Rightarrow> JUndefined | Some v \<Rightarrow> v)"
| "optional_prop _ key = JUndefined"

text \<open>\<open>where\<close> is an optional string; as a condition, the empty string is false too.\<close>

definition count :: "('e, 'w, DatabaseQueryResult) client \<Rightarrow> string \<Rightarrow> string option \<Rightarrow> jsval list option \<Rightarrow> ('e, 'w, jsval) promise" where
  "count request tableName where whereParams =
     (let q = (case where of
                 Some c \<Rightarrow> if c \<noteq> [] then ''SELECT COUNT(*) as count FROM '' @ tableName @ '' WHERE '' @ c
                           else ''SELECT COUNT(*) as count FROM '' @ tableName
               | None \<Rightarrow> ''SELECT COUNT(*) as count FROM '' @ tableName)
      in await (queryOne request q whereParams)
           (\<lambda>result. resolve (coalesce (optional_prop result ''count'') (JNum 0))))"


section \<open>Reading the extension manifest\<close>

text \<open>What can be thrown inside \<open>readManifest\<close>: by \<open>readFileSync\<close> (with the path), by
  \<open>JSON.parse\<close>, and by reading a property of \<open>null\<close> or \<open>undefined\<close>.\<close>

datatype error = FileError string | SyntaxError | TypeError

text \<open>What is written to the console, in order.\<close>

datatype diag = Console_warn string | Console_log string

text \<open>A synchronous computation: it throws or returns, and has written some lines.\<close>

type_synonym 'a io = "(error + 'a) \<times> diag list"

definition io_return :: "'a \<Rightarrow> 'a io" where
  "io_return v = (Inr v, [])"

definition io_throw :: "error \<Rightarrow> 'a io" where
  "io_throw e = (Inl e, [])"

definition io_bind :: "'a io \<Rightarrow> ('a \<Rightarrow> 'b io) \<Rightarrow> 'b io" where
  "io_bind m k =
     (case m of
        (Inl e, out) \<Rightarrow> (Inl e, out)
      | (Inr a, out) \<Rightarrow> (case k a of (r, out') \<Rightarrow> (r, out @ out')))"

text \<open>\<open>try { body } catch (e) { handler }\<close>: what the body wrote before it threw stays
  written.\<close>

definition try_catch :: "'a io \<Rightarrow> (error \<Rightarrow> 'a io) \<Rightarrow> 'a io" where
  "try_catch body handler =
     (case body of
        (Inl e, out) \<Rightarrow> (case handler e of (r, out') \<Rightarrow> (r, out @ out'))
      | (Inr a, out) \<Rightarrow> (Inr a, out))"

definition console_warn :: "string \<Rightarrow> unit io" where
  "console_warn msg = (Inr (), [Console_warn msg])"

definition console_log :: "string \<Rightarrow> unit io" where
  "console_log msg = (Inr (), [Console_log msg])"

text \<open>
  \<open>v.key\<close> for a key that no built-in prototype defines (all the keys read below are such):
  a throw on \<open>null\<close> and \<open>undefined\<close>, the property of an object or \<open>undefined\<close> when it
  has none, and \<open>undefined\<close> on a number, a string, a boolean or an array.
\<close>

fun get_prop :: "jsval \<Rightarrow> string \<Rightarrow> jsval io" where
  "get_prop JUndefined key = io_throw TypeError"
| "get_prop JNull key = io_throw TypeError"
| "get_prop (JObj props) key = io_return (case map_of props key of None \<Rightarrow> JUndefined | Some v \<Rightarrow> v)"
| "get_prop _ key = io_return JUndefined"

text \<open>\<open>a ?? b\<close> on expressions: \<open>b\<close> is evaluated only when \<open>a\<close> is nullish.\<close>

definition coalesce_io :: "jsval io \<Rightarrow> jsval io \<Rightarrow> jsval io" where
  "coalesce_io a b = io_bind a (\<lambda>v. if nullish v then b else io_return v)"

text \<open>
  The file system and the JSON parser belong to the runtime, not to the SDK; they are
  parameters. \<open>readFileSync path = None\<close> when reading the file throws, and
  \<open>JSON_parse text = None\<close> when the text is not JSON.
\<close>

definition read_file :: "(string \<Rightarrow> string option) \<Rightarrow> string \<Rightarrow> string io" where
  "read_file readFileSync path =
     (case readFileSync path of None \<Rightarrow> io_throw (FileError path) | Some content \<Rightarrow> io_return content)"

definition parse_json :: "(string \<Rightarrow> jsval option) \<Rightarrow> string \<Rightarrow> jsval io" where
  "parse_json JSON_parse content =
     (case JSON_parse content of None \<Rightarrow> io_throw SyntaxError | Some v \<Rightarrow> io_return v)"

record ReadManifestOptions =
  rootDir :: string
  manifestPath :: "string option"
  extensionDir :: "string option"

text \<open>
  Modelled from the spec: the type \<open>ExtensionManifest\<close> of \<open>./types\<close> is not part of the
  sources at hand. It has the twelve fields of the spec's manifest format, which are the
  fields \<open>readManifest\<close> fills. The parsed JSON is not validated, so each field holds
  whatever value the files hold.
\<close>

record ExtensionManifest =
  name :: jsval
  version :: jsval
  author :: jsval
  entry :: jsval
  icon :: jsval
  publicKey :: jsval
  signature :: jsval
  permissions :: jsval
  homepage :: jsval
  description :: jsval
  singleInstance :: jsval
  displayMode :: jsval

text \<open>Lines 25 to 27. As a condition, an empty \<open>manifestPath\<close> counts as none; the
  default of \<open>extensionDir\<close> applies only when it is not given.\<close>

definition resolvedManifestPath :: "(string list \<Rightarrow> string) \<Rightarrow> ReadManifestOptions \<Rightarrow> string" where
  "resolvedManifestPath resolvePath options =
     (let dir = (case extensionDir options of None \<Rightarrow> ''haextension'' | Some d \<Rightarrow> d)
      in case manifestPath options of
           Some p \<Rightarrow>
             if p \<noteq> [] then resolvePath [rootDir options, p]
             else resolvePath [rootDir options, dir, ''manifest.json'']
         | None \<Rightarrow> resolvePath [rootDir options, dir, ''manifest.json''])"

text \<open>Lines 34 to 40: the companion \<open>package.json\<close>, or \<open>{}\<close> and a warning when it
  cannot be read or parsed.\<close>

definition read_packageJson :: "(string list \<Rightarrow> string) \<Rightarrow> (string \<Rightarrow> string option) \<Rightarrow> (string \<Rightarrow> jsval option) \<Rightarrow> string \<Rightarrow> jsval io" where
  "read_packageJson resolvePath readFileSync JSON_parse root =
     try_catch
       (io_bind (read_file readFileSync (resolvePath [root, ''package.json'']))
          (parse_json JSON_parse))
       (\<lambda>pkgError.
          io_bind (console_warn ''[@haexhub/sdk] Warning: Could not read package.json'')
            (\<lambda>_. io_return (JObj [])))"

text \<open>Lines 58 to 79: the manifest object, then the line that reports success. The
  three characters that open that line in the source text are given by the seven bytes
  they have in the file, \<open>c3 a2 c5 93 e2 80 9c\<close>.\<close>

definition build_manifest :: "string \<Rightarrow> jsval \<Rightarrow> jsval \<Rightarrow> jsval \<Rightarrow> jsval \<Rightarrow> jsval \<Rightarrow> ExtensionManifest option io" where
  "build_manifest path parsed n v a h =
     io_bind (coalesce_io (get_prop parsed ''entry'') (io_return JNull)) (\<lambda>e.
     io_bind (coalesce_io (get_prop parsed ''icon'') (io_return JNull)) (\<lambda>i.
     io_bind (coalesce_io (get_prop parsed ''publicKey'') (io_return (JStr []))) (\<lambda>pk.
     io_bind (coalesce_io (get_prop parsed ''signature'') (io_return (JStr []))) (\<lambda>sg.
     io_bind (coalesce_io (get_prop parsed ''permissions'')
                (io_return (JObj [(''database'', JArr []), (''filesystem'', JArr []),
                                  (''http'', JArr []), (''shell'', JArr [])]))) (\<lambda>pm.
     io_bind (coalesce_io (get_prop parsed ''description'') (io_return JNull)) (\<lambda>d.
     io_bind (coalesce_io (get_prop parsed ''singleInstance'') (io_return JNull)) (\<lambda>si.
     io_bind (coalesce_io (get_prop parsed ''displayMode'') (io_return JNull)) (\<lambda>dm.
     io_bind (console_log ([CHR 0xC3, CHR 0xA2, CHR 0xC5, CHR 0x93, CHR 0xE2, CHR 0x80, CHR 0x9C] @ '' [@haexhub/sdk] Loaded '' @ path)) (\<lambda>_.
     io_return (Some \<lparr> name = n, version = v, author = a, entry = e, icon = i,
                       publicKey = pk, signature = sg, permissions = pm, homepage = h,
                       description = d, singleInstance = si, displayMode = dm \<rparr>))))))))))"

text \<open>Lines 30 to 79, the body of the outer \<open>try\<close>.\<close>

definition readManifest_body :: "(string list \<Rightarrow> string) \<Rightarrow> (string \<Rightarrow> string option) \<Rightarrow> (string \<Rightarrow> jsval option) \<Rightarrow> ReadManifestOptions \<Rightarrow> ExtensionManifest option io" where
  "readManifest_body resolvePath readFileSync JSON_parse options =
     io_bind (read_file readFileSync (resolvedManifestPath resolvePath options)) (\<lambda>manifestContent.
     io_bind (parse_json JSON_parse manifestContent) (\<lambda>parsed.
     io_bind (read_packageJson resolvePath readFileSync JSON_parse (rootDir options)) (\<lambda>packageJson.
     io_bind (coalesce_io (get_prop parsed ''name'') (get_prop packageJson ''name'')) (\<lambda>n.
     io_bind (coalesce_io (get_prop parsed ''version'') (get_prop packageJson ''version'')) (\<lambda>v.
     io_bind (coalesce_io (coalesce_io (get_prop parsed ''author'') (get_prop packageJson ''author''))
                (io_return JNull)) (\<lambda>a.
     io_bind (coalesce_io (coalesce_io (get_prop parsed ''homepage'') (get_prop packageJson ''homepage''))
                (io_return JNull)) (\<lambda>h.
     if \<not> truthy n then
       io_bind (console_warn ''[@haexhub/sdk] Warning: No name found in manifest or package.json'')
         (\<lambda>_. io_return None)
     else if \<not> truthy v then
       io_bind (console_warn ''[@haexhub/sdk] Warning: No version found in manifest or package.json'')
         (\<lambda>_. io_return None)
     else build_manifest (resolvedManifestPath resolvePath options) parsed n v a h)))))))"

text \<open>\<open>readManifest\<close>: the body, and the handler of the outer \<open>catch\<close> (lines 80 to 85).\<close>

definition readManifest :: "(string list \<Rightarrow> string) \<Rightarrow> (string \<Rightarrow> string option) \<Rightarrow> (string \<Rightarrow> jsval option) \<Rightarrow> ReadManifestOptions \<Rightarrow> ExtensionManifest option io" where
  "readManifest resolvePath readFileSync JSON_parse options =
     try_catch (readManifest_body resolvePath readFileSync JSON_parse options)
       (\<lambda>error.
          io_bind (console_warn (''[@haexhub/sdk] Warning: manifest.json not found at ''
                     @ resolvedManifestPath resolvePath options
                     @ '', extension info will not be available''))
            (\<lambda>_. io_return None))"


section \<open>Properties of DatabaseAPI\<close>

subsection \<open>A failure of the gateway, operation by operation\<close>

text \<open>
  Each operation is run on the recording gateway from an empty record. When the gateway
  rejects the request that the operation makes, the operation rejects with the same reason,
  the world is the one the gateway left, and the record holds that one request.
\<close>

lemma traced_rejected:
  "request m p w = (Inl e, w') \<Longrightarrow> traced request m p (w, calls) = (Inl e, (w', calls @ [(m, p)]))"
  by (simp add: traced_def)

lemma await_rejected: "p w = (Inl e, w') \<Longrightarrow> await p k w = (Inl e, w')"
  by (simp add: await_def)

lemma await_fulfilled: "p w = (Inr a, w') \<Longrightarrow> await p k w = k a w'"
  by (simp add: await_def)

lemma query_rejected:
  "request Database_query (Query_payload q (params_or_empty params)) w = (Inl e, w') \<Longrightarrow>
   query (traced request) q params (w, []) =
     (Inl e, (w', [(Database_query, Query_payload q (params_or_empty params))]))"
  by (simp add: query_def await_rejected traced_rejected)

lemma queryOne_rejected:
  "request Database_query (Query_payload q (params_or_empty params)) w = (Inl e, w') \<Longrightarrow>
   queryOne (traced request) q params (w, []) =
     (Inl e, (w', [(Database_query, Query_payload q (params_or_empty params))]))"
  by (simp add: queryOne_def await_rejected query_rejected)

lemma execute_rejected:
  "request Database_execute (Query_payload q (params_or_empty params)) w = (Inl e, w') \<Longrightarrow>
   execute (traced request) q params (w, []) =
     (Inl e, (w', [(Database_execute, Query_payload q (params_or_empty params))]))"
  by (simp add: execute_def traced_rejected)

lemma transaction_rejected:
  "request Database_transaction (Statements_payload statements) w = (Inl e, w') \<Longrightarrow>
   transaction (traced request) statements (w, []) =
     (Inl e, (w', [(Database_transaction, Statements_payload statements)]))"
  by (simp add: transaction_def await_rejected traced_rejected)

lemma createTable_rejected:
  "request Database_execute
     (Query_payload (''CREATE TABLE IF NOT EXISTS '' @ tableName @ '' ('' @ columns @ '')'') []) w = (Inl e, w') \<Longrightarrow>
   createTable (traced request) tableName columns (w, []) =
     (Inl e, (w', [(Database_execute,
        Query_payload (''CREATE TABLE IF NOT EXISTS '' @ tableName @ '' ('' @ columns @ '')'') [])]))"
  using execute_rejected [of request _ None w e w']
  by (simp add: createTable_def Let_def await_rejected params_or_empty_def)

lemma dropTable_rejected:
  "request Database_execute (Query_payload (''DROP TABLE IF EXISTS '' @ tableName) []) w = (Inl e, w') \<Longrightarrow>
   dropTable (traced request) tableName (w, []) =
     (Inl e, (w', [(Database_execute, Query_payload (''DROP TABLE IF EXISTS '' @ tableName) [])]))"
  using execute_rejected [of request _ None w e w']
  by (simp add: dropTable_def Let_def await_rejected params_or_empty_def)

lemma registerMigrationsAsync_HaexHub_rejected:
  "request Database_registerMigrations (Migrations_payload extensionVersion migrations) w = (Inl e, w') \<Longrightarrow>
   registerMigrationsAsync_HaexHub (traced request) extensionVersion migrations (w, []) =
     (Inl e, (w', [(Database_registerMigrations, Migrations_payload extensionVersion migrations)]))"
  by (simp add: registerMigrationsAsync_HaexHub_def await_rejected traced_rejected)

lemma registerMigrationsAsync_rejected:
  "request Database_registerMigrations (Migrations_payload extensionVersion migrations) w = (Inl e, w') \<Longrightarrow>
   registerMigrationsAsync (traced request) extensionVersion migrations (w, []) =
     (Inl e, (w', [(Database_registerMigrations, Migrations_payload extensionVersion migrations)]))"
  by (simp add: registerMigrationsAsync_def traced_rejected)

lemma insert_row_rejected:
  "request Database_execute
     (Query_payload (''INSERT INTO '' @ tableName @ '' ('' @ join '', '' (map fst data)
         @ '') VALUES ('' @ join '', '' (map (\<lambda>_. ''?'') (map fst data)) @ '')'')
       (map snd data)) w = (Inl e, w') \<Longrightarrow>
   insert_row (traced request) tableName data (w, []) =
     (Inl e, (w', [(Database_execute,
        Query_payload (''INSERT INTO '' @ tableName @ '' ('' @ join '', '' (map fst data)
            @ '') VALUES ('' @ join '', '' (map (\<lambda>_. ''?'') (map fst data)) @ '')'')
          (map snd data))]))"
  using execute_rejected [of request _ "Some (map snd data)" w e w']
  by (simp add: insert_row_def Let_def await_rejected params_or_empty_def)

lemma update_rejected:
  "request Database_execute
     (Query_payload (''UPDATE '' @ tableName @ '' SET ''
         @ join '', '' (map (\<lambda>key. key @ '' = ?'') (map fst data)) @ '' WHERE '' @ cond)
       (map snd data @ params_or_empty whereParams)) w = (Inl e, w') \<Longrightarrow>
   update (traced request) tableName data cond whereParams (w, []) =
     (Inl e, (w', [(Database_execute,
        Query_payload (''UPDATE '' @ tableName @ '' SET ''
            @ join '', '' (map (\<lambda>key. key @ '' = ?'') (map fst data)) @ '' WHERE '' @ cond)
          (map snd data @ params_or_empty whereParams))]))"
  using execute_rejected [of request _ "Some (map snd data @ params_or_empty whereParams)" w e w']
  by (simp add: update_def Let_def await_rejected params_or_empty_def)

lemma delete_rejected:
  "request Database_execute
     (Query_payload (''DELETE FROM '' @ tableName @ '' WHERE '' @ cond) (params_or_empty whereParams)) w
     = (Inl e, w') \<Longrightarrow>
   delete (traced request) tableName cond whereParams (w, []) =
     (Inl e, (w', [(Database_execute,
        Query_payload (''DELETE FROM '' @ tableName @ '' WHERE '' @ cond) (params_or_empty whereParams))]))"
  by (simp add: delete_def Let_def await_rejected execute_rejected)

lemma count_rejected:
  "request Database_query
     (Query_payload
        (case cond of
           Some c \<Rightarrow> if c \<noteq> [] then ''SELECT COUNT(*) as count FROM '' @ tableName @ '' WHERE '' @ c
                     else ''SELECT COUNT(*) as count FROM '' @ tableName
         | None \<Rightarrow> ''SELECT COUNT(*) as count FROM '' @ tableName)
        (params_or_empty whereParams)) w = (Inl e, w') \<Longrightarrow>
   count (traced request) tableName cond whereParams (w, []) =
     (Inl e, (w', [(Database_query,
        Query_payload
          (case cond of
             Some c \<Rightarrow> if c \<noteq> [] then ''SELECT COUNT(*) as count FROM '' @ tableName @ '' WHERE '' @ c
                       else ''SELECT COUNT(*) as count FROM '' @ tableName
           | None \<Rightarrow> ''SELECT COUNT(*) as count FROM '' @ tableName)
          (params_or_empty whereParams))]))"
  by (simp add: count_def Let_def await_rejected queryOne_rejected)

text \<open>
  Claim C4. Whatever the operation (\<open>query\<close>, \<open>queryOne\<close>, \<open>execute\<close>, \<open>transaction\<close>,
  \<open>createTable\<close>, \<open>dropTable\<close>, \<open>registerMigrationsAsync\<close> in both classes, \<open>insert\<close>,
  \<open>update\<close>, \<open>delete\<close>, \<open>count\<close>) and whatever its arguments: if the gateway rejects the
  request of the operation with \<open>e\<close>, the operation rejects with \<open>e\<close> itself, and the gateway
  has been called once, with that request: nothing is retried, nothing is called besides,
  and the reason is neither changed nor replaced.
\<close>

theorem gateway_failure_propagates:
  "(request Database_query (Query_payload q (params_or_empty params)) w = (Inl e, w') \<longrightarrow>
      query (traced request) q params (w, []) =
        (Inl e, (w', [(Database_query, Query_payload q (params_or_empty params))]))
    \<and> queryOne (traced request) q params (w, []) =
        (Inl e, (w', [(Database_query, Query_payload q (params_or_empty params))])))
 \<and> (request Database_execute (Query_payload q (params_or_empty params)) w = (Inl e, w') \<longrightarrow>
      execute (traced request) q params (w, []) =
        (Inl e, (w', [(Database_execute, Query_payload q (params_or_empty params))])))
 \<and> (request_any Database_transaction (Statements_payload statements) w = (Inl e, w') \<longrightarrow>
      transaction (traced request_any) statements (w, []) =
        (Inl e, (w', [(Database_transaction, Statements_payload statements)])))
 \<and> (request Database_execute
       (Query_payload (''CREATE TABLE IF NOT EXISTS '' @ tableName @ '' ('' @ columns @ '')'') []) w
       = (Inl e, w') \<longrightarrow>
      createTable (traced request) tableName columns (w, []) =
        (Inl e, (w', [(Database_execute,
           Query_payload (''CREATE TABLE IF NOT EXISTS '' @ tableName @ '' ('' @ columns @ '')'') [])])))
 \<and> (request Database_execute (Query_payload (''DROP TABLE IF EXISTS '' @ tableName) []) w = (Inl e, w') \<longrightarrow>
      dropTable (traced request) tableName (w, []) =
        (Inl e, (w', [(Database_execute, Query_payload (''DROP TABLE IF EXISTS '' @ tableName) [])])))
 \<and> (request_any Database_registerMigrations (Migrations_payload extensionVersion migrations) w
       = (Inl e, w') \<longrightarrow>
      registerMigrationsAsync_HaexHub (traced request_any) extensionVersion migrations (w, []) =
        (Inl e, (w', [(Database_registerMigrations, Migrations_payload extensionVersion migrations)])))
 \<and> (request_migrations Database_registerMigrations (Migrations_payload extensionVersion migrations) w
       = (Inl e, w') \<longrightarrow>
      registerMigrationsAsync (traced request_migrations) extensionVersion migrations (w, []) =
        (Inl e, (w', [(Database_registerMigrations, Migrations_payload extensionVersion migrations)])))
 \<and> (request Database_execute
       (Query_payload (''INSERT INTO '' @ tableName @ '' ('' @ join '', '' (map fst data)
           @ '') VALUES ('' @ join '', '' (map (\<lambda>_. ''?'') (map fst data)) @ '')'')
         (map snd data)) w = (Inl e, w') \<longrightarrow>
      insert_row (traced request) tableName data (w, []) =
        (Inl e, (w', [(Database_execute,
           Query_payload (''INSERT INTO '' @ tableName @ '' ('' @ join '', '' (map fst data)
               @ '') VALUES ('' @ join '', '' (map (\<lambda>_. ''?'') (map fst data)) @ '')'')
             (map snd data))])))
 \<and> (request Database_execute
       (Query_payload (''UPDATE '' @ tableName @ '' SET ''
           @ join '', '' (map (\<lambda>key. key @ '' = ?'') (map fst data)) @ '' WHERE '' @ cond)
         (map snd data @ params_or_empty whereParams)) w = (Inl e, w') \<longrightarrow>
      update (traced request) tableName data cond whereParams (w, []) =
        (Inl e, (w', [(Database_execute,
           Query_payload (''UPDATE '' @ tableName @ '' SET ''
               @ join '', '' (map (\<lambda>key. key @ '' = ?'') (map fst data)) @ '' WHERE '' @ cond)
             (map snd data @ params_or_empty whereParams))])))
 \<and> (request Database_execute
       (Query_payload (''DELETE FROM '' @ tableName @ '' WHERE '' @ cond) (params_or_empty whereParams)) w
       = (Inl e, w') \<longrightarrow>
      delete (traced request) tableName cond whereParams (w, []) =
        (Inl e, (w', [(Database_execute,
           Query_payload (''DELETE FROM '' @ tableName @ '' WHERE '' @ cond) (params_or_empty whereParams))])))
 \<and> (request Database_query
       (Query_payload
          (case optCond of
             Some c \<Rightarrow> if c \<noteq> [] then ''SELECT COUNT(*) as count FROM '' @ tableName @ '' WHERE '' @ c
                       else ''SELECT COUNT(*) as count FROM '' @ tableName
           | None \<Rightarrow> ''SELECT COUNT(*) as count FROM '' @ tableName)
          (params_or_empty whereParams)) w = (Inl e, w') \<longrightarrow>
      count (traced request) tableName optCond whereParams (w, []) =
        (Inl e, (w', [(Database_query,
           Query_payload
             (case optCond of
                Some c \<Rightarrow> if c \<noteq> [] then ''SELECT COUNT(*) as count FROM '' @ tableName @ '' WHERE '' @ c
                          else ''SELECT COUNT(*) as count FROM '' @ tableName
              | None \<Rightarrow> ''SELECT COUNT(*) as count FROM '' @ tableName)
             (params_or_empty whereParams))])))"
  by (intro conjI impI query_rejected queryOne_rejected execute_rejected transaction_rejected
        createTable_rejected dropTable_rejected registerMigrationsAsync_HaexHub_rejected
        registerMigrationsAsync_rejected insert_row_rejected update_rejected delete_rejected
        count_rejected)

theorem gateway_failure_propagates_witness:
  "query (traced (\<lambda>m p w. (Inl ''channel down'', w))) ''SELECT 1'' None ((), []) =
     (Inl ''channel down'', ((), [(Database_query, Query_payload ''SELECT 1'' [])]))
 \<and> queryOne (traced (\<lambda>m p w. (Inl ''channel down'', w))) ''SELECT 1'' None ((), []) =
     (Inl ''channel down'', ((), [(Database_query, Query_payload ''SELECT 1'' [])]))
 \<and> execute (traced (\<lambda>m p w. (Inl ''channel down'', w))) ''SELECT 1'' None ((), []) =
     (Inl ''channel down'', ((), [(Database_execute, Query_payload ''SELECT 1'' [])]))
 \<and> transaction (traced (\<lambda>m p w. (Inl ''channel down'' :: string + unit, w))) [''BEGIN''] ((), []) =
     (Inl ''channel down'', ((), [(Database_transaction, Statements_payload [''BEGIN''])]))
 \<and> createTable (traced (\<lambda>m p w. (Inl ''channel down'', w))) ''t'' ''id'' ((), []) =
     (Inl ''channel down'', ((), [(Database_execute, Query_payload ''CREATE TABLE IF NOT EXISTS t (id)'' [])]))
 \<and> dropTable (traced (\<lambda>m p w. (Inl ''channel down'', w))) ''t'' ((), []) =
     (Inl ''channel down'', ((), [(Database_execute, Query_payload ''DROP TABLE IF EXISTS t'' [])]))
 \<and> registerMigrationsAsync_HaexHub (traced (\<lambda>m p w. (Inl ''channel down'' :: string + unit, w)))
      ''1.0.0'' [Migration ''0001_x'' ''id''] ((), []) =
     (Inl ''channel down'',
      ((), [(Database_registerMigrations, Migrations_payload ''1.0.0'' [Migration ''0001_x'' ''id''])]))
 \<and> registerMigrationsAsync (traced (\<lambda>m p w. (Inl ''channel down'', w)))
      ''1.0.0'' [Migration ''0001_x'' ''id''] ((), []) =
     (Inl ''channel down'',
      ((), [(Database_registerMigrations, Migrations_payload ''1.0.0'' [Migration ''0001_x'' ''id''])]))
 \<and> insert_row (traced (\<lambda>m p w. (Inl ''channel down'', w))) ''t'' [(''id'', JNum 1)] ((), []) =
     (Inl ''channel down'', ((), [(Database_execute, Query_payload ''INSERT INTO t (id) VALUES (?)'' [JNum 1])]))
 \<and> update (traced (\<lambda>m p w. (Inl ''channel down'', w))) ''t'' [(''id'', JNum 1)] ''1'' None ((), []) =
     (Inl ''channel down'', ((), [(Database_execute, Query_payload ''UPDATE t SET id = ? WHERE 1'' [JNum 1])]))
 \<and> delete (traced (\<lambda>m p w. (Inl ''channel down'', w))) ''t'' ''1'' None ((), []) =
     (Inl ''channel down'', ((), [(Database_execute, Query_payload ''DELETE FROM t WHERE 1'' [])]))
 \<and> count (traced (\<lambda>m p w. (Inl ''channel down'', w))) ''t'' None None ((), []) =
     (Inl ''channel down'', ((), [(Database_query, Query_payload ''SELECT COUNT(*) as count FROM t'' [])]))"
  using gateway_failure_propagates [where request = "\<lambda>m p w. (Inl ''channel down'', w)"
      and request_any = "\<lambda>m p w. (Inl ''channel down'' :: string + unit, w)"
      and request_migrations = "\<lambda>m p w. (Inl ''channel down'', w)"
      and w = "()" and e = "''channel down''" and w' = "()"
      and q = "''SELECT 1''" and params = None and statements = "[''BEGIN'']"
      and tableName = "''t''" and columns = "''id''" and extensionVersion = "''1.0.0''"
      and migrations = "[Migration ''0001_x'' ''id'']" and data = "[(''id'', JNum 1)]"
      and cond = "''1''" and whereParams = None and optCond = None]
  by (simp add: params_or_empty_def)


subsection \<open>Registering migrations\<close>

text \<open>
  Claim C2. One call of \<open>registerMigrationsAsync\<close>, in either class, makes one gateway call,
  under the name for registering migrations, whose payload holds the extension version
  and the list of migrations as they were given: same elements, same order, names and SQL
  untouched. A second call sends its own arguments only: after two calls the gateway has
  received the first request and then the second, so nothing of the first call is kept,
  sorted, filtered or merged.
\<close>

theorem registerMigrationsAsync_one_call_unchanged:
  "snd (snd (registerMigrationsAsync (traced request) extensionVersion migrations (w, []))) =
     [(Database_registerMigrations, Migrations_payload extensionVersion migrations)]
   \<and> snd (snd (registerMigrationsAsync_HaexHub (traced request') extensionVersion migrations (v, []))) =
     [(Database_registerMigrations, Migrations_payload extensionVersion migrations)]
   \<and> (case registerMigrationsAsync (traced request) extensionVersion migrations (w, []) of
        (r1, s1) \<Rightarrow> snd (snd (registerMigrationsAsync (traced request) extensionVersion2 migrations2 s1))) =
     [(Database_registerMigrations, Migrations_payload extensionVersion migrations),
      (Database_registerMigrations, Migrations_payload extensionVersion2 migrations2)]
   \<and> (case registerMigrationsAsync_HaexHub (traced request') extensionVersion migrations (v, []) of
        (r1, s1) \<Rightarrow> snd (snd (registerMigrationsAsync_HaexHub (traced request') extensionVersion2 migrations2 s1))) =
     [(Database_registerMigrations, Migrations_payload extensionVersion migrations),
      (Database_registerMigrations, Migrations_payload extensionVersion2 migrations2)]"
  by (simp add: registerMigrationsAsync_def registerMigrationsAsync_HaexHub_def traced_def await_def resolve_def
        split: prod.splits sum.splits)


text \<open>
  Claim C1, as the code has it. In the class over \<open>HaexVaultClient\<close> (lines 198 to 209),
  \<open>registerMigrationsAsync\<close> is the gateway call itself: when the gateway answers with a
  \<open>MigrationResult\<close>, that record is what the caller gets, with its count of migrations
  applied in this call, its count of migrations applied before and its list of applied
  names. In the class over \<open>HaexHubClient\<close> (lines 62 to 70) the same request is made, and
  the promise resolves to no value.
\<close>

theorem registerMigrationsAsync_result:
  assumes "request Database_registerMigrations (Migrations_payload extensionVersion migrations) w
             = (Inr result, w')"
  shows "registerMigrationsAsync request extensionVersion migrations w = (Inr result, w')
       \<and> map_sum id appliedCount (fst (registerMigrationsAsync request extensionVersion migrations w))
           = Inr (appliedCount result)
       \<and> map_sum id alreadyAppliedCount (fst (registerMigrationsAsync request extensionVersion migrations w))
           = Inr (alreadyAppliedCount result)
       \<and> map_sum id appliedMigrations (fst (registerMigrationsAsync request extensionVersion migrations w))
           = Inr (appliedMigrations result)
       \<and> registerMigrationsAsync_HaexHub request extensionVersion migrations w = (Inr (), w')"
  using assms
  by (simp add: registerMigrationsAsync_def registerMigrationsAsync_HaexHub_def await_def resolve_def)

theorem registerMigrationsAsync_result_witness:
  "registerMigrationsAsync
     (\<lambda>m p w. (Inr \<lparr>appliedCount = 1, alreadyAppliedCount = 1, appliedMigrations = [''0001_x'', ''0002_x'']\<rparr>, Suc w))
     ''1.0.0'' [Migration ''0001_x'' ''CREATE TABLE a (id)'', Migration ''0002_x'' ''CREATE TABLE b (id)''] (0::nat)
   = (Inr \<lparr>appliedCount = 1, alreadyAppliedCount = 1, appliedMigrations = [''0001_x'', ''0002_x'']\<rparr> :: string + MigrationResult, 1)
   \<and> registerMigrationsAsync_HaexHub
     (\<lambda>m p w. (Inr \<lparr>appliedCount = 1, alreadyAppliedCount = 1, appliedMigrations = [''0001_x'', ''0002_x'']\<rparr>, Suc w))
     ''1.0.0'' [Migration ''0001_x'' ''CREATE TABLE a (id)'', Migration ''0002_x'' ''CREATE TABLE b (id)''] (0::nat)
   = (Inr () :: string + unit, 1)"
  using registerMigrationsAsync_result
    [of "\<lambda>m p w. (Inr \<lparr>appliedCount = 1, alreadyAppliedCount = 1, appliedMigrations = [''0001_x'', ''0002_x'']\<rparr> :: string + MigrationResult, Suc w)"
        "''1.0.0''" "[Migration ''0001_x'' ''CREATE TABLE a (id)'', Migration ''0002_x'' ''CREATE TABLE b (id)'']"
        "0::nat" "\<lparr>appliedCount = 1, alreadyAppliedCount = 1, appliedMigrations = [''0001_x'', ''0002_x'']\<rparr>" 1]
  by simp

text \<open>
  Claim C1 as it is written fails on the class over \<open>HaexHubClient\<close>: a host that reports
  two migrations applied now and a host that reports the same two as applied before lead
  to the same value for the caller, who cannot tell the two apart.
\<close>

theorem registerMigrationsAsync_HaexHub_drops_result:
  "registerMigrationsAsync_HaexHub
     (\<lambda>m p w. (Inr \<lparr>appliedCount = 2, alreadyAppliedCount = 0, appliedMigrations = [''0001_x'', ''0002_x'']\<rparr>, w))
     ''1.0.0'' [Migration ''0001_x'' ''CREATE TABLE a (id)'', Migration ''0002_x'' ''CREATE TABLE b (id)''] ()
   = (Inr () :: string + unit, ())
   \<and> registerMigrationsAsync_HaexHub
     (\<lambda>m p w. (Inr \<lparr>appliedCount = 0, alreadyAppliedCount = 2, appliedMigrations = [''0001_x'', ''0002_x'']\<rparr>, w))
     ''1.0.0'' [Migration ''0001_x'' ''CREATE TABLE a (id)'', Migration ''0002_x'' ''CREATE TABLE b (id)''] ()
   = (Inr () :: string + unit, ())
   \<and> \<lparr>appliedCount = 2, alreadyAppliedCount = 0, appliedMigrations = [''0001_x'', ''0002_x'']\<rparr>
     \<noteq> \<lparr>appliedCount = 0, alreadyAppliedCount = 2, appliedMigrations = [''0001_x'', ''0002_x'']\<rparr>"
  by (simp add: registerMigrationsAsync_HaexHub_def await_def resolve_def)


subsection \<open>The helpers that build SQL\<close>

text \<open>
  Claim C5. \<open>insert("t", {a: 1, b: 2})\<close> makes one gateway call, under the name for
  \<open>execute\<close>, with the text \<open>INSERT INTO t (a, b) VALUES (?, ?)\<close> and the bound parameters
  \<open>[1, 2]\<close>, and returns the last-inserted identifier that the host reports in its answer.
\<close>

theorem insert_example:
  assumes "request Database_execute
             (Query_payload ''INSERT INTO t (a, b) VALUES (?, ?)'' [JNum 1, JNum 2]) w = (Inr result, w')"
    and "lastInsertId result = Present n"
  shows "insert_row (traced request) ''t'' [(''a'', JNum 1), (''b'', JNum 2)] (w, []) =
           (Inr n, (w', [(Database_execute, Query_payload ''INSERT INTO t (a, b) VALUES (?, ?)'' [JNum 1, JNum 2])]))"
  using assms
  by (simp add: insert_row_def execute_def params_or_empty_def await_def resolve_def Let_def traced_def)

theorem insert_example_witness:
  "insert_row (traced (\<lambda>m p w. (Inr \<lparr>rows = [], rowsAffected = 1, lastInsertId = Present 42\<rparr>, Suc w)))
     ''t'' [(''a'', JNum 1), (''b'', JNum 2)] (0::nat, []) =
     (Inr 42 :: string + int,
      (1, [(Database_execute, Query_payload ''INSERT INTO t (a, b) VALUES (?, ?)'' [JNum 1, JNum 2])]))"
  using insert_example [of "\<lambda>m p w. (Inr \<lparr>rows = [], rowsAffected = 1, lastInsertId = Present 42\<rparr>, Suc w)"
      "0::nat" "\<lparr>rows = [], rowsAffected = 1, lastInsertId = Present 42\<rparr>" 1 42]
  by simp

text \<open>
  Claim C6. Take two records with the same keys in the same order. Whatever their values,
  whatever the gateways and the worlds of the two runs, \<open>insert\<close> sends one and the same
  SQL text in both runs, and so does \<open>update\<close> for one and the same \<open>where\<close> string. The
  values of a record travel in the list of bound parameters only (for \<open>update\<close>, followed
  by the parameters of the \<open>where\<close> string).
\<close>

theorem sql_text_independent_of_values:
  assumes "map fst data1 = map fst data2"
  shows "(\<exists>text. snd (snd (insert_row (traced request1) tableName data1 (w1, []))) =
                   [(Database_execute, Query_payload text (map snd data1))]
               \<and> snd (snd (insert_row (traced request2) tableName data2 (w2, []))) =
                   [(Database_execute, Query_payload text (map snd data2))])
       \<and> (\<exists>text. snd (snd (update (traced request1) tableName data1 cond whereParams1 (w1, []))) =
                   [(Database_execute, Query_payload text (map snd data1 @ params_or_empty whereParams1))]
               \<and> snd (snd (update (traced request2) tableName data2 cond whereParams2 (w2, []))) =
                   [(Database_execute, Query_payload text (map snd data2 @ params_or_empty whereParams2))])"
  using assms
  by (simp add: insert_row_def update_def execute_def params_or_empty_def await_def resolve_def Let_def traced_def
        split: prod.splits sum.splits option.splits)

theorem sql_text_independent_of_values_witness:
  "(\<exists>text.
      snd (snd (insert_row (traced (\<lambda>m p w. (Inl ''down'' :: string + DatabaseQueryResult, w)))
                 ''t'' [(''a'', JNum 1), (''b'', JNum 2)] ((), []))) =
        [(Database_execute, Query_payload text [JNum 1, JNum 2])]
    \<and> snd (snd (insert_row (traced (\<lambda>m p w. (Inr \<lparr>rows = [], rowsAffected = 1, lastInsertId = Present 5\<rparr> :: string + DatabaseQueryResult, w)))
                 ''t'' [(''a'', JStr ''x); DROP TABLE t''), (''b'', JNull)] ((), []))) =
        [(Database_execute, Query_payload text [JStr ''x); DROP TABLE t'', JNull])])
 \<and> (\<exists>text.
      snd (snd (update (traced (\<lambda>m p w. (Inl ''down'' :: string + DatabaseQueryResult, w)))
                 ''t'' [(''a'', JNum 1), (''b'', JNum 2)] ''id = ?'' (Some [JNum 7]) ((), []))) =
        [(Database_execute, Query_payload text [JNum 1, JNum 2, JNum 7])]
    \<and> snd (snd (update (traced (\<lambda>m p w. (Inr \<lparr>rows = [], rowsAffected = 1, lastInsertId = Present 5\<rparr> :: string + DatabaseQueryResult, w)))
                 ''t'' [(''a'', JStr ''x); DROP TABLE t''), (''b'', JNull)] ''id = ?'' None ((), []))) =
        [(Database_execute, Query_payload text [JStr ''x); DROP TABLE t'', JNull])])"
  using sql_text_independent_of_values
    [of "[(''a'', JNum 1), (''b'', JNum 2)]" "[(''a'', JStr ''x); DROP TABLE t''), (''b'', JNull)]"
        "\<lambda>m p w. (Inl ''down'' :: string + DatabaseQueryResult, w)" "''t''" "()"
        "\<lambda>m p w. (Inr \<lparr>rows = [], rowsAffected = 1, lastInsertId = Present 5\<rparr> :: string + DatabaseQueryResult, w)" "()"
        "''id = ?''" "Some [JNum 7]" None]
  by (simp add: params_or_empty_def)

text \<open>
  Claim C9. When the answer of the gateway to the \<open>execute\<close> call of \<open>insert\<close> has no
  \<open>lastInsertId\<close>, the field being absent or \<open>null\<close>, \<open>insert\<close> returns \<open>-1\<close>.
\<close>

theorem insert_without_lastInsertId:
  assumes "request Database_execute
             (Query_payload (''INSERT INTO '' @ tableName @ '' ('' @ join '', '' (map fst data)
                 @ '') VALUES ('' @ join '', '' (map (\<lambda>_. ''?'') (map fst data)) @ '')'')
               (map snd data)) w = (Inr result, w')"
    and "lastInsertId result = Absent \<or> lastInsertId result = Null"
  shows "insert_row request tableName data w = (Inr (- 1), w')"
  using assms
  by (auto simp add: insert_row_def execute_def params_or_empty_def await_def resolve_def Let_def)

theorem insert_without_lastInsertId_witness:
  "insert_row (\<lambda>m p w. (Inr \<lparr>rows = [], rowsAffected = 1, lastInsertId = Null\<rparr>, Suc w))
     ''t'' [(''a'', JNum 1)] (0::nat) = (Inr (- 1) :: string + int, 1)
   \<and> insert_row (\<lambda>m p w. (Inr \<lparr>rows = [], rowsAffected = 1, lastInsertId = Absent\<rparr>, Suc w))
     ''t'' [(''a'', JNum 1)] (0::nat) = (Inr (- 1) :: string + int, 1)"
  using insert_without_lastInsertId [of "\<lambda>m p w. (Inr \<lparr>rows = [], rowsAffected = 1, lastInsertId = Null\<rparr>, Suc w)"
      "''t''" "[(''a'', JNum 1)]" "0::nat" "\<lparr>rows = [], rowsAffected = 1, lastInsertId = Null\<rparr>" 1]
    insert_without_lastInsertId [of "\<lambda>m p w. (Inr \<lparr>rows = [], rowsAffected = 1, lastInsertId = Absent\<rparr>, Suc w)"
      "''t''" "[(''a'', JNum 1)]" "0::nat" "\<lparr>rows = [], rowsAffected = 1, lastInsertId = Absent\<rparr>" 1]
  by simp

text \<open>
  Claim C10. When \<open>query\<close> returns a list of rows, \<open>queryOne\<close> returns \<open>null\<close> for the empty
  list and otherwise the first row, or \<open>null\<close> when that first row is itself \<open>undefined\<close>
  or \<open>null\<close>; no later row is ever returned.
\<close>

theorem queryOne_first_row:
  assumes "query request q params w = (Inr rs, w')"
  shows "queryOne request q params w =
           (Inr (case rs of [] \<Rightarrow> JNull | r # rest \<Rightarrow> if nullish r then JNull else r), w')"
  using assms
  by (cases rs) (simp_all add: queryOne_def await_fulfilled resolve_def coalesce_def)

theorem queryOne_first_row_witness:
  "queryOne (\<lambda>m p w. (Inr \<lparr>rows = [JNum 7, JNum 8], rowsAffected = 0, lastInsertId = Absent\<rparr>, w))
     ''SELECT x FROM t'' None () = (Inr (JNum 7) :: string + jsval, ())
   \<and> queryOne (\<lambda>m p w. (Inr \<lparr>rows = [JUndefined, JNum 8], rowsAffected = 0, lastInsertId = Absent\<rparr>, w))
     ''SELECT x FROM t'' None () = (Inr JNull :: string + jsval, ())
   \<and> queryOne (\<lambda>m p w. (Inr \<lparr>rows = [], rowsAffected = 0, lastInsertId = Absent\<rparr>, w))
     ''SELECT x FROM t'' None () = (Inr JNull :: string + jsval, ())"
  using queryOne_first_row [of "\<lambda>m p w. (Inr \<lparr>rows = [JNum 7, JNum 8], rowsAffected = 0, lastInsertId = Absent\<rparr>, w)"
      "''SELECT x FROM t''" None "()" "[JNum 7, JNum 8]" "()"]
    queryOne_first_row [of "\<lambda>m p w. (Inr \<lparr>rows = [JUndefined, JNum 8], rowsAffected = 0, lastInsertId = Absent\<rparr>, w)"
      "''SELECT x FROM t''" None "()" "[JUndefined, JNum 8]" "()"]
    queryOne_first_row [of "\<lambda>m p w. (Inr \<lparr>rows = [], rowsAffected = 0, lastInsertId = Absent\<rparr>, w)"
      "''SELECT x FROM t''" None "()" "[]" "()"]
  by (simp add: query_def await_def resolve_def)


section \<open>Properties of readManifest\<close>

subsection \<open>Evaluating the steps\<close>

lemma io_bind_return: "io_bind (io_return v) k = k v"
  by (simp add: io_bind_def io_return_def split: prod.splits)

lemma io_bind_throw: "io_bind (io_throw e) k = io_throw e"
  by (simp add: io_bind_def io_throw_def)

lemma io_bind_Inr: "io_bind (Inr a, out) k = (fst (k a), out @ snd (k a))"
  by (simp add: io_bind_def split: prod.splits)

lemma get_prop_eq:
  "get_prop v key = (if nullish v then io_throw TypeError else io_return (optional_prop v key))"
  by (cases v) simp_all

lemma coalesce_io_return: "coalesce_io (io_return a) b = (if nullish a then b else io_return a)"
  by (simp add: coalesce_io_def io_bind_return)

lemma coalesce_io_throw: "coalesce_io (io_throw e) b = io_throw e"
  by (simp add: coalesce_io_def io_bind_throw)

lemma coalesce_io_returns: "coalesce_io (io_return a) (io_return b) = io_return (coalesce a b)"
  by (simp add: coalesce_io_return coalesce_def)

lemma read_packageJson_eq:
  "read_packageJson resolvePath readFileSync JSON_parse root =
     (case readFileSync (resolvePath [root, ''package.json'']) of
        None \<Rightarrow> (Inr (JObj []), [Console_warn ''[@haexhub/sdk] Warning: Could not read package.json''])
      | Some content \<Rightarrow>
          (case JSON_parse content of
             None \<Rightarrow> (Inr (JObj []), [Console_warn ''[@haexhub/sdk] Warning: Could not read package.json''])
           | Some v \<Rightarrow> (Inr v, [])))"
  by (simp add: read_packageJson_def try_catch_def io_bind_def read_file_def parse_json_def
        io_throw_def io_return_def console_warn_def split: option.splits)

lemma build_manifest_eq:
  assumes "\<not> nullish parsed"
  shows "build_manifest path parsed n v a h =
     (Inr (Some \<lparr> name = n, version = v, author = a,
              entry = coalesce (optional_prop parsed ''entry'') JNull,
              icon = coalesce (optional_prop parsed ''icon'') JNull,
              publicKey = coalesce (optional_prop parsed ''publicKey'') (JStr []),
              signature = coalesce (optional_prop parsed ''signature'') (JStr []),
              permissions = coalesce (optional_prop parsed ''permissions'')
                (JObj [(''database'', JArr []), (''filesystem'', JArr []),
                       (''http'', JArr []), (''shell'', JArr [])]),
              homepage = h,
              description = coalesce (optional_prop parsed ''description'') JNull,
              singleInstance = coalesce (optional_prop parsed ''singleInstance'') JNull,
              displayMode = coalesce (optional_prop parsed ''displayMode'') JNull \<rparr>),
      [Console_log ([CHR 0xC3, CHR 0xA2, CHR 0xC5, CHR 0x93, CHR 0xE2, CHR 0x80, CHR 0x9C] @ '' [@haexhub/sdk] Loaded '' @ path)])"
  using assms
  by (simp add: build_manifest_def get_prop_eq coalesce_io_returns io_bind_return console_log_def io_bind_Inr)
    (simp add: io_return_def)

subsection \<open>The body of the outer try, case by case\<close>

text \<open>
  The body is followed through the four situations it can be in once the manifest file is
  read and parsed: the parsed value is \<open>null\<close>, so that reading its first property throws;
  the value of \<open>packageJson\<close> is \<open>null\<close>, so that every fallback to it throws; neither;
  and, before all that, the manifest file cannot be read or parsed.
\<close>

lemma body_parsed_nullish:
  assumes "readFileSync (resolvedManifestPath resolvePath options) = Some manifestContent"
    and "JSON_parse manifestContent = Some parsed"
    and "nullish parsed"
  shows "readManifest_body resolvePath readFileSync JSON_parse options =
           (Inl TypeError, snd (read_packageJson resolvePath readFileSync JSON_parse (rootDir options)))"
  using assms
  by (simp add: readManifest_body_def read_file_def parse_json_def io_bind_return get_prop_eq
        coalesce_io_throw io_bind_throw read_packageJson_eq io_bind_Inr split: option.splits)
    (simp add: io_throw_def)

lemma body_main:
  assumes "readFileSync (resolvedManifestPath resolvePath options) = Some manifestContent"
    and "JSON_parse manifestContent = Some parsed"
    and "\<not> nullish parsed"
    and "read_packageJson resolvePath readFileSync JSON_parse (rootDir options) = (Inr packageJson, out)"
    and "\<not> nullish packageJson"
  shows "readManifest_body resolvePath readFileSync JSON_parse options =
     (if \<not> truthy (coalesce (optional_prop parsed ''name'') (optional_prop packageJson ''name'')) then
        (Inr None, out @ [Console_warn ''[@haexhub/sdk] Warning: No name found in manifest or package.json''])
      else if \<not> truthy (coalesce (optional_prop parsed ''version'') (optional_prop packageJson ''version'')) then
        (Inr None, out @ [Console_warn ''[@haexhub/sdk] Warning: No version found in manifest or package.json''])
      else
        (fst (build_manifest (resolvedManifestPath resolvePath options) parsed
           (coalesce (optional_prop parsed ''name'') (optional_prop packageJson ''name''))
           (coalesce (optional_prop parsed ''version'') (optional_prop packageJson ''version''))
           (coalesce (coalesce (optional_prop parsed ''author'') (optional_prop packageJson ''author'')) JNull)
           (coalesce (coalesce (optional_prop parsed ''homepage'') (optional_prop packageJson ''homepage'')) JNull)),
         out @ snd (build_manifest (resolvedManifestPath resolvePath options) parsed
           (coalesce (optional_prop parsed ''name'') (optional_prop packageJson ''name''))
           (coalesce (optional_prop parsed ''version'') (optional_prop packageJson ''version''))
           (coalesce (coalesce (optional_prop parsed ''author'') (optional_prop packageJson ''author'')) JNull)
           (coalesce (coalesce (optional_prop parsed ''homepage'') (optional_prop packageJson ''homepage'')) JNull))))"
  using assms
  by (simp add: readManifest_body_def read_file_def parse_json_def io_bind_return get_prop_eq
        coalesce_io_returns io_bind_Inr console_warn_def)
    (simp add: io_return_def)

lemma body_packageJson_nullish:
  assumes "readFileSync (resolvedManifestPath resolvePath options) = Some manifestContent"
    and "JSON_parse manifestContent = Some parsed"
    and "\<not> nullish parsed"
    and "read_packageJson resolvePath readFileSync JSON_parse (rootDir options) = (Inr packageJson, out)"
    and "nullish packageJson"
  shows "readManifest_body resolvePath readFileSync JSON_parse options =
     (if nullish (optional_prop parsed ''name'') \<or> nullish (optional_prop parsed ''version'')
         \<or> nullish (optional_prop parsed ''author'') \<or> nullish (optional_prop parsed ''homepage'') then
        (Inl TypeError, out)
      else if \<not> truthy (optional_prop parsed ''name'') then
        (Inr None, out @ [Console_warn ''[@haexhub/sdk] Warning: No name found in manifest or package.json''])
      else if \<not> truthy (optional_prop parsed ''version'') then
        (Inr None, out @ [Console_warn ''[@haexhub/sdk] Warning: No version found in manifest or package.json''])
      else
        (fst (build_manifest (resolvedManifestPath resolvePath options) parsed
           (optional_prop parsed ''name'') (optional_prop parsed ''version'')
           (optional_prop parsed ''author'') (optional_prop parsed ''homepage'')),
         out @ snd (build_manifest (resolvedManifestPath resolvePath options) parsed
           (optional_prop parsed ''name'') (optional_prop parsed ''version'')
           (optional_prop parsed ''author'') (optional_prop parsed ''homepage''))))"
  using assms
  by (simp add: readManifest_body_def read_file_def parse_json_def io_bind_return get_prop_eq
        coalesce_io_return coalesce_io_throw io_bind_throw io_bind_Inr console_warn_def)
    (simp add: io_return_def io_throw_def)

lemma read_packageJson_returns:
  "\<exists>packageJson out. read_packageJson resolvePath readFileSync JSON_parse root = (Inr packageJson, out)"
  by (simp add: read_packageJson_eq split: option.splits)

lemma readManifest_caught:
  "readManifest_body resolvePath readFileSync JSON_parse options = (Inl e, out) \<Longrightarrow>
   readManifest resolvePath readFileSync JSON_parse options =
     (Inr None, out @ [Console_warn (''[@haexhub/sdk] Warning: manifest.json not found at ''
                     @ resolvedManifestPath resolvePath options
                     @ '', extension info will not be available'')])"
  by (simp add: readManifest_def try_catch_def console_warn_def io_bind_Inr io_return_def)

lemma readManifest_returned:
  "readManifest_body resolvePath readFileSync JSON_parse options = (Inr r, out) \<Longrightarrow>
   readManifest resolvePath readFileSync JSON_parse options = (Inr r, out)"
  by (simp add: readManifest_def try_catch_def)

lemma body_unreadable:
  "readFileSync (resolvedManifestPath resolvePath options) = None \<Longrightarrow>
   readManifest_body resolvePath readFileSync JSON_parse options =
     (Inl (FileError (resolvedManifestPath resolvePath options)), [])"
  by (simp add: readManifest_body_def read_file_def io_bind_throw) (simp add: io_throw_def)

lemma body_unparseable:
  "readFileSync (resolvedManifestPath resolvePath options) = Some manifestContent \<Longrightarrow>
   JSON_parse manifestContent = None \<Longrightarrow>
   readManifest_body resolvePath readFileSync JSON_parse options = (Inl SyntaxError, [])"
  by (simp add: readManifest_body_def read_file_def parse_json_def io_bind_throw io_bind_return)
    (simp add: io_throw_def)

subsection \<open>What readManifest returns\<close>

lemma nullish_not_truthy: "nullish v \<Longrightarrow> \<not> truthy v"
  by (cases v) simp_all

lemma build_manifest_fields:
  assumes "\<not> nullish parsed"
  shows "\<exists>m. build_manifest path parsed n v a h =
               (Inr (Some m), [Console_log ([CHR 0xC3, CHR 0xA2, CHR 0xC5, CHR 0x93, CHR 0xE2, CHR 0x80, CHR 0x9C] @ '' [@haexhub/sdk] Loaded '' @ path)])
             \<and> name m = n \<and> version m = v \<and> author m = a \<and> homepage m = h"
  by (simp add: build_manifest_eq [OF assms])

lemma readManifest_outcome:
  "(\<exists>out msg. readManifest resolvePath readFileSync JSON_parse options = (Inr None, out @ [Console_warn msg]))
 \<or> (\<exists>m out manifestContent parsed packageJson.
        readManifest resolvePath readFileSync JSON_parse options = (Inr (Some m), out)
      \<and> readFileSync (resolvedManifestPath resolvePath options) = Some manifestContent
      \<and> JSON_parse manifestContent = Some parsed
      \<and> \<not> nullish parsed
      \<and> fst (read_packageJson resolvePath readFileSync JSON_parse (rootDir options)) = Inr packageJson
      \<and> name m = coalesce (optional_prop parsed ''name'') (optional_prop packageJson ''name'')
      \<and> version m = coalesce (optional_prop parsed ''version'') (optional_prop packageJson ''version'')
      \<and> author m = coalesce (coalesce (optional_prop parsed ''author'') (optional_prop packageJson ''author'')) JNull
      \<and> homepage m = coalesce (coalesce (optional_prop parsed ''homepage'') (optional_prop packageJson ''homepage'')) JNull
      \<and> truthy (name m) \<and> truthy (version m))"
  (is "?none \<or> ?some")
proof (cases "readFileSync (resolvedManifestPath resolvePath options)")
  case None
  have "readManifest_body resolvePath readFileSync JSON_parse options =
      (Inl (FileError (resolvedManifestPath resolvePath options)), [])"
    using None by (rule body_unreadable)
  from readManifest_caught [OF this] have ?none by blast
  then show ?thesis ..
next
  case (Some manifestContent)
  show ?thesis
  proof (cases "JSON_parse manifestContent")
    case None
    have "readManifest_body resolvePath readFileSync JSON_parse options = (Inl SyntaxError, [])"
      using Some None by (rule body_unparseable)
    from readManifest_caught [OF this] have ?none by blast
    then show ?thesis ..
  next
    case parsed: (Some parsed)
    obtain packageJson out where pkg:
      "read_packageJson resolvePath readFileSync JSON_parse (rootDir options) = (Inr packageJson, out)"
      using read_packageJson_returns by blast
    show ?thesis
    proof (cases "nullish parsed")
      case True
      have "readManifest_body resolvePath readFileSync JSON_parse options =
          (Inl TypeError, snd (read_packageJson resolvePath readFileSync JSON_parse (rootDir options)))"
        using Some parsed True by (rule body_parsed_nullish)
      from readManifest_caught [OF this] have ?none by blast
      then show ?thesis ..
    next
      case False
      obtain m where m: "build_manifest (resolvedManifestPath resolvePath options) parsed
           (coalesce (optional_prop parsed ''name'') (optional_prop packageJson ''name''))
           (coalesce (optional_prop parsed ''version'') (optional_prop packageJson ''version''))
           (coalesce (coalesce (optional_prop parsed ''author'') (optional_prop packageJson ''author'')) JNull)
           (coalesce (coalesce (optional_prop parsed ''homepage'') (optional_prop packageJson ''homepage'')) JNull)
          = (Inr (Some m), [Console_log ([CHR 0xC3, CHR 0xA2, CHR 0xC5, CHR 0x93, CHR 0xE2, CHR 0x80, CHR 0x9C] @ '' [@haexhub/sdk] Loaded ''
                @ resolvedManifestPath resolvePath options)])"
        and fields: "name m = coalesce (optional_prop parsed ''name'') (optional_prop packageJson ''name'')"
          "version m = coalesce (optional_prop parsed ''version'') (optional_prop packageJson ''version'')"
          "author m = coalesce (coalesce (optional_prop parsed ''author'') (optional_prop packageJson ''author'')) JNull"
          "homepage m = coalesce (coalesce (optional_prop parsed ''homepage'') (optional_prop packageJson ''homepage'')) JNull"
        using build_manifest_fields [OF False] by blast
      show ?thesis
      proof (cases "nullish packageJson")
        case pj: False
        note body = body_main [of readFileSync resolvePath options, OF Some parsed False pkg pj]
        show ?thesis
        proof (cases "truthy (coalesce (optional_prop parsed ''name'') (optional_prop packageJson ''name''))
                      \<and> truthy (coalesce (optional_prop parsed ''version'') (optional_prop packageJson ''version''))")
          case True
          with body m have "readManifest_body resolvePath readFileSync JSON_parse options =
              (Inr (Some m), out @ [Console_log ([CHR 0xC3, CHR 0xA2, CHR 0xC5, CHR 0x93, CHR 0xE2, CHR 0x80, CHR 0x9C] @ '' [@haexhub/sdk] Loaded ''
                @ resolvedManifestPath resolvePath options)])"
            by simp
          from readManifest_returned [OF this] Some parsed False pkg fields True
          have ?some by auto
          then show ?thesis ..
        next
          case False
          with body have "\<exists>msg. readManifest_body resolvePath readFileSync JSON_parse options =
              (Inr None, out @ [Console_warn msg])"
            by auto
          then have ?none using readManifest_returned by blast
          then show ?thesis ..
        qed
      next
        case pj: True
        note body = body_packageJson_nullish [of readFileSync resolvePath options, OF Some parsed False pkg pj]
        have opt: "optional_prop packageJson key = JUndefined" for key
          using pj by (cases packageJson) simp_all
        show ?thesis
        proof (cases "nullish (optional_prop parsed ''name'') \<or> nullish (optional_prop parsed ''version'')
               \<or> nullish (optional_prop parsed ''author'') \<or> nullish (optional_prop parsed ''homepage'')")
          case True
          with body have "readManifest_body resolvePath readFileSync JSON_parse options = (Inl TypeError, out)"
            by simp
          from readManifest_caught [OF this] have ?none by blast
          then show ?thesis ..
        next
          case present: False
          then have co: "coalesce (optional_prop parsed ''name'') (optional_prop packageJson ''name'') = optional_prop parsed ''name''"
            "coalesce (optional_prop parsed ''version'') (optional_prop packageJson ''version'') = optional_prop parsed ''version''"
            "coalesce (coalesce (optional_prop parsed ''author'') (optional_prop packageJson ''author'')) JNull = optional_prop parsed ''author''"
            "coalesce (coalesce (optional_prop parsed ''homepage'') (optional_prop packageJson ''homepage'')) JNull = optional_prop parsed ''homepage''"
            by (simp_all add: coalesce_def)
          show ?thesis
          proof (cases "truthy (optional_prop parsed ''name'') \<and> truthy (optional_prop parsed ''version'')")
            case True
            with body present m co have "readManifest_body resolvePath readFileSync JSON_parse options =
                (Inr (Some m), out @ [Console_log ([CHR 0xC3, CHR 0xA2, CHR 0xC5, CHR 0x93, CHR 0xE2, CHR 0x80, CHR 0x9C] @ '' [@haexhub/sdk] Loaded ''
                  @ resolvedManifestPath resolvePath options)])"
              by simp
            from readManifest_returned [OF this] Some parsed False pkg fields True co
            have ?some by auto
            then show ?thesis ..
          next
            case False
            with body present have "\<exists>msg. readManifest_body resolvePath readFileSync JSON_parse options =
                (Inr None, out @ [Console_warn msg])"
              by auto
            then have ?none using readManifest_returned by blast
            then show ?thesis ..
          qed
        qed
      qed
    qed
  qed
qed

lemma packageJson_value:
  assumes "fst (read_packageJson resolvePath readFileSync JSON_parse root) = Inr packageJson"
  shows "packageJson = JObj []
       \<or> (\<exists>content. readFileSync (resolvePath [root, ''package.json'']) = Some content
             \<and> JSON_parse content = Some packageJson)"
  using assms by (auto simp add: read_packageJson_eq split: option.splits)

lemma packageJson_read:
  assumes "readFileSync (resolvePath [root, ''package.json'']) = Some content"
    and "JSON_parse content = Some packageJson"
  shows "read_packageJson resolvePath readFileSync JSON_parse root = (Inr packageJson, [])"
  using assms by (simp add: read_packageJson_eq)

lemma readManifest_none_or_some:
  "(\<exists>out msg. readManifest resolvePath readFileSync JSON_parse options = (Inr None, out @ [Console_warn msg]))
 \<or> (\<exists>m out. readManifest resolvePath readFileSync JSON_parse options = (Inr (Some m), out))"
  using readManifest_outcome [of resolvePath readFileSync JSON_parse options]
  by (elim disjE exE conjE) blast+

lemma readManifest_some_fields:
  assumes "readManifest resolvePath readFileSync JSON_parse options = (Inr (Some m), out)"
  shows "\<exists>manifestContent parsed packageJson.
        readFileSync (resolvedManifestPath resolvePath options) = Some manifestContent
      \<and> JSON_parse manifestContent = Some parsed
      \<and> \<not> nullish parsed
      \<and> fst (read_packageJson resolvePath readFileSync JSON_parse (rootDir options)) = Inr packageJson
      \<and> name m = coalesce (optional_prop parsed ''name'') (optional_prop packageJson ''name'')
      \<and> version m = coalesce (optional_prop parsed ''version'') (optional_prop packageJson ''version'')
      \<and> author m = coalesce (coalesce (optional_prop parsed ''author'') (optional_prop packageJson ''author'')) JNull
      \<and> homepage m = coalesce (coalesce (optional_prop parsed ''homepage'') (optional_prop packageJson ''homepage'')) JNull
      \<and> truthy (name m) \<and> truthy (version m)"
  using readManifest_outcome [of resolvePath readFileSync JSON_parse options]
proof (elim disjE exE conjE)
  fix out' msg
  assume "readManifest resolvePath readFileSync JSON_parse options = (Inr None, out' @ [Console_warn msg])"
  with assms show ?thesis by simp
next
  fix m' out' manifestContent parsed packageJson
  assume "readManifest resolvePath readFileSync JSON_parse options = (Inr (Some m'), out')"
  with assms have "m' = m" by simp
  moreover assume "readFileSync (resolvedManifestPath resolvePath options) = Some manifestContent"
    "JSON_parse manifestContent = Some parsed" "\<not> nullish parsed"
    "fst (read_packageJson resolvePath readFileSync JSON_parse (rootDir options)) = Inr packageJson"
    "name m' = coalesce (optional_prop parsed ''name'') (optional_prop packageJson ''name'')"
    "version m' = coalesce (optional_prop parsed ''version'') (optional_prop packageJson ''version'')"
    "author m' = coalesce (coalesce (optional_prop parsed ''author'') (optional_prop packageJson ''author'')) JNull"
    "homepage m' = coalesce (coalesce (optional_prop parsed ''homepage'') (optional_prop packageJson ''homepage'')) JNull"
    "truthy (name m')" "truthy (version m')"
  ultimately show ?thesis by blast
qed

lemma readManifest_field_missing:
  assumes manifest: "\<And>content parsed. readFileSync (resolvedManifestPath resolvePath options) = Some content
            \<Longrightarrow> JSON_parse content = Some parsed \<Longrightarrow> nullish (optional_prop parsed key)"
    and package: "\<And>content packageJson. readFileSync (resolvePath [rootDir options, ''package.json'']) = Some content
            \<Longrightarrow> JSON_parse content = Some packageJson \<Longrightarrow> nullish (optional_prop packageJson key)"
    and result: "readManifest resolvePath readFileSync JSON_parse options = (Inr (Some m), out)"
  shows "\<exists>parsed packageJson.
           name m = coalesce (optional_prop parsed ''name'') (optional_prop packageJson ''name'')
         \<and> version m = coalesce (optional_prop parsed ''version'') (optional_prop packageJson ''version'')
         \<and> truthy (name m) \<and> truthy (version m)
         \<and> nullish (coalesce (optional_prop parsed key) (optional_prop packageJson key))"
proof -
  from readManifest_some_fields [OF result]
  obtain content parsed packageJson where
    c: "readFileSync (resolvedManifestPath resolvePath options) = Some content"
    and p: "JSON_parse content = Some parsed"
    and pkg: "fst (read_packageJson resolvePath readFileSync JSON_parse (rootDir options)) = Inr packageJson"
    and n: "name m = coalesce (optional_prop parsed ''name'') (optional_prop packageJson ''name'')"
    and v: "version m = coalesce (optional_prop parsed ''version'') (optional_prop packageJson ''version'')"
    and t: "truthy (name m)" "truthy (version m)"
    by blast
  have 1: "nullish (optional_prop parsed key)" using c p by (rule manifest)
  have 2: "nullish (optional_prop packageJson key)"
    using packageJson_value [OF pkg]
  proof (elim disjE exE conjE)
    assume "packageJson = JObj []"
    then show ?thesis by simp
  next
    fix pc
    assume "readFileSync (resolvePath [rootDir options, ''package.json'']) = Some pc"
      "JSON_parse pc = Some packageJson"
    then show ?thesis by (rule package)
  qed
  from 1 2 have "nullish (coalesce (optional_prop parsed key) (optional_prop packageJson key))"
    by (simp add: coalesce_def)
  with n v t show ?thesis by blast
qed

text \<open>
  Claim C8. \<open>readManifest\<close> never throws: whatever the files hold, it returns. Whenever it
  returns \<open>null\<close>, a warning has been written. It returns \<open>null\<close>, with the warning that
  the manifest was not found as the only line written, when the manifest file cannot be
  read or is not JSON; and it returns \<open>null\<close> when neither the manifest nor
  \<open>package.json\<close> (which may be unreadable) has a \<open>name\<close>, and likewise for \<open>version\<close>.
\<close>

theorem readManifest_never_throws:
  "(\<exists>r. fst (readManifest resolvePath readFileSync JSON_parse options) = Inr r)
 \<and> (fst (readManifest resolvePath readFileSync JSON_parse options) = Inr None \<longrightarrow>
      (\<exists>msg. Console_warn msg \<in> set (snd (readManifest resolvePath readFileSync JSON_parse options))))
 \<and> (readFileSync (resolvedManifestPath resolvePath options) = None
      \<or> (\<exists>content. readFileSync (resolvedManifestPath resolvePath options) = Some content
            \<and> JSON_parse content = None) \<longrightarrow>
      readManifest resolvePath readFileSync JSON_parse options =
        (Inr None, [Console_warn (''[@haexhub/sdk] Warning: manifest.json not found at ''
                     @ resolvedManifestPath resolvePath options
                     @ '', extension info will not be available'')]))
 \<and> ((\<forall>content parsed. readFileSync (resolvedManifestPath resolvePath options) = Some content
            \<and> JSON_parse content = Some parsed \<longrightarrow> nullish (optional_prop parsed ''name''))
      \<and> (\<forall>content packageJson. readFileSync (resolvePath [rootDir options, ''package.json'']) = Some content
            \<and> JSON_parse content = Some packageJson \<longrightarrow> nullish (optional_prop packageJson ''name'')) \<longrightarrow>
      fst (readManifest resolvePath readFileSync JSON_parse options) = Inr None)
 \<and> ((\<forall>content parsed. readFileSync (resolvedManifestPath resolvePath options) = Some content
            \<and> JSON_parse content = Some parsed \<longrightarrow> nullish (optional_prop parsed ''version''))
      \<and> (\<forall>content packageJson. readFileSync (resolvePath [rootDir options, ''package.json'']) = Some content
            \<and> JSON_parse content = Some packageJson \<longrightarrow> nullish (optional_prop packageJson ''version'')) \<longrightarrow>
      fst (readManifest resolvePath readFileSync JSON_parse options) = Inr None)"
  (is "?returns \<and> ?warned \<and> ?missing \<and> ?unnamed \<and> ?unversioned")
proof (intro conjI)
  note cases = readManifest_none_or_some [of resolvePath readFileSync JSON_parse options]
  from cases show ?returns
    by (elim disjE exE) simp_all
  from cases show ?warned
    by (elim disjE exE) auto
  show ?missing
  proof
    assume "readFileSync (resolvedManifestPath resolvePath options) = None
      \<or> (\<exists>content. readFileSync (resolvedManifestPath resolvePath options) = Some content
            \<and> JSON_parse content = None)"
    then have "\<exists>e. readManifest_body resolvePath readFileSync JSON_parse options = (Inl e, [])"
    proof (elim disjE exE conjE)
      assume "readFileSync (resolvedManifestPath resolvePath options) = None"
      then have "readManifest_body resolvePath readFileSync JSON_parse options =
          (Inl (FileError (resolvedManifestPath resolvePath options)), [])"
        by (rule body_unreadable)
      then show ?thesis by blast
    next
      fix content
      assume "readFileSync (resolvedManifestPath resolvePath options) = Some content"
        "JSON_parse content = None"
      then have "readManifest_body resolvePath readFileSync JSON_parse options = (Inl SyntaxError, [])"
        by (rule body_unparseable)
      then show ?thesis by blast
    qed
    then obtain e where "readManifest_body resolvePath readFileSync JSON_parse options = (Inl e, [])"
      by blast
    from readManifest_caught [OF this]
    show "readManifest resolvePath readFileSync JSON_parse options =
        (Inr None, [Console_warn (''[@haexhub/sdk] Warning: manifest.json not found at ''
                     @ resolvedManifestPath resolvePath options
                     @ '', extension info will not be available'')])"
      by simp
  qed
  show ?unnamed
  proof
    assume h: "(\<forall>content parsed. readFileSync (resolvedManifestPath resolvePath options) = Some content
            \<and> JSON_parse content = Some parsed \<longrightarrow> nullish (optional_prop parsed ''name''))
      \<and> (\<forall>content packageJson. readFileSync (resolvePath [rootDir options, ''package.json'']) = Some content
            \<and> JSON_parse content = Some packageJson \<longrightarrow> nullish (optional_prop packageJson ''name''))"
    from cases show "fst (readManifest resolvePath readFileSync JSON_parse options) = Inr None"
    proof (elim disjE exE)
      fix out msg
      assume "readManifest resolvePath readFileSync JSON_parse options = (Inr None, out @ [Console_warn msg])"
      then show ?thesis by simp
    next
      fix m out
      assume r: "readManifest resolvePath readFileSync JSON_parse options = (Inr (Some m), out)"
      have "\<exists>parsed packageJson.
           name m = coalesce (optional_prop parsed ''name'') (optional_prop packageJson ''name'')
         \<and> version m = coalesce (optional_prop parsed ''version'') (optional_prop packageJson ''version'')
         \<and> truthy (name m) \<and> truthy (version m)
         \<and> nullish (coalesce (optional_prop parsed ''name'') (optional_prop packageJson ''name''))"
        using h by (intro readManifest_field_missing [OF _ _ r]) blast+
      then have False using nullish_not_truthy by metis
      then show ?thesis ..
    qed
  qed
  show ?unversioned
  proof
    assume h: "(\<forall>content parsed. readFileSync (resolvedManifestPath resolvePath options) = Some content
            \<and> JSON_parse content = Some parsed \<longrightarrow> nullish (optional_prop parsed ''version''))
      \<and> (\<forall>content packageJson. readFileSync (resolvePath [rootDir options, ''package.json'']) = Some content
            \<and> JSON_parse content = Some packageJson \<longrightarrow> nullish (optional_prop packageJson ''version''))"
    from cases show "fst (readManifest resolvePath readFileSync JSON_parse options) = Inr None"
    proof (elim disjE exE)
      fix out msg
      assume "readManifest resolvePath readFileSync JSON_parse options = (Inr None, out @ [Console_warn msg])"
      then show ?thesis by simp
    next
      fix m out
      assume r: "readManifest resolvePath readFileSync JSON_parse options = (Inr (Some m), out)"
      have "\<exists>parsed packageJson.
           name m = coalesce (optional_prop parsed ''name'') (optional_prop packageJson ''name'')
         \<and> version m = coalesce (optional_prop parsed ''version'') (optional_prop packageJson ''version'')
         \<and> truthy (name m) \<and> truthy (version m)
         \<and> nullish (coalesce (optional_prop parsed ''version'') (optional_prop packageJson ''version''))"
        using h by (intro readManifest_field_missing [OF _ _ r]) blast+
      then have False using nullish_not_truthy by metis
      then show ?thesis ..
    qed
  qed
qed

theorem readManifest_never_throws_witness:
  "readManifest (join ''/'') (map_of []) (map_of [])
     \<lparr>rootDir = ''/ext'', manifestPath = None, extensionDir = None\<rparr>
   = (Inr None, [Console_warn ''[@haexhub/sdk] Warning: manifest.json not found at /ext/haextension/manifest.json, extension info will not be available''])
   \<and> fst (readManifest (join ''/'') (map_of [(''/ext/haextension/manifest.json'', ''{}'')])
          (map_of [(''{}'', JObj [])])
          \<lparr>rootDir = ''/ext'', manifestPath = None, extensionDir = None\<rparr>) = Inr None
   \<and> (\<exists>msg. Console_warn msg \<in> set (snd (readManifest (join ''/'')
          (map_of [(''/ext/haextension/manifest.json'', ''{}'')]) (map_of [(''{}'', JObj [])])
          \<lparr>rootDir = ''/ext'', manifestPath = None, extensionDir = None\<rparr>)))"
  using readManifest_never_throws [of "join ''/''" "map_of []" "map_of []"
      "\<lparr>rootDir = ''/ext'', manifestPath = None, extensionDir = None\<rparr>"]
    readManifest_never_throws [of "join ''/''" "map_of [(''/ext/haextension/manifest.json'', ''{}'')]"
      "map_of [(''{}'', JObj [])]"
      "\<lparr>rootDir = ''/ext'', manifestPath = None, extensionDir = None\<rparr>"]
  by (simp add: resolvedManifestPath_def)

text \<open>
  Claim C7, as the code has it. Let the manifest file be read and parse. If the parsed
  value is not \<open>null\<close> and has no \<open>version\<close> (none, or \<open>null\<close>), \<open>package.json\<close> parses and
  has the version \<open>1.2.3\<close>, and the name that the merge selects (the manifest's unless it
  is missing or \<open>null\<close>, otherwise that of \<open>package.json\<close>) is truthy, then \<open>readManifest\<close>
  returns a manifest whose version is \<open>1.2.3\<close>. And in every manifest that is returned,
  each of \<open>name\<close>, \<open>version\<close>, \<open>author\<close> and \<open>homepage\<close> that the manifest file has with a
  value other than \<open>null\<close> is returned as the manifest file has it, whatever
  \<open>package.json\<close> holds and whether or not it can be read at all.
\<close>

theorem readManifest_version_fallback:
  assumes "readFileSync (resolvedManifestPath resolvePath options) = Some manifestContent"
    and "JSON_parse manifestContent = Some parsed"
  shows "(\<not> nullish parsed
          \<and> readFileSync (resolvePath [rootDir options, ''package.json'']) = Some packageContent
          \<and> JSON_parse packageContent = Some packageJson
          \<and> nullish (optional_prop parsed ''version'')
          \<and> optional_prop packageJson ''version'' = JStr ''1.2.3''
          \<and> truthy (coalesce (optional_prop parsed ''name'') (optional_prop packageJson ''name'')) \<longrightarrow>
            (\<exists>m out. readManifest resolvePath readFileSync JSON_parse options = (Inr (Some m), out)
               \<and> version m = JStr ''1.2.3''))
       \<and> (\<forall>m out. readManifest resolvePath readFileSync JSON_parse options = (Inr (Some m), out) \<longrightarrow>
            (\<not> nullish (optional_prop parsed ''name'') \<longrightarrow> name m = optional_prop parsed ''name'')
          \<and> (\<not> nullish (optional_prop parsed ''version'') \<longrightarrow> version m = optional_prop parsed ''version'')
          \<and> (\<not> nullish (optional_prop parsed ''author'') \<longrightarrow> author m = optional_prop parsed ''author'')
          \<and> (\<not> nullish (optional_prop parsed ''homepage'') \<longrightarrow> homepage m = optional_prop parsed ''homepage''))"
  (is "?fallback \<and> ?precedence")
proof
  show ?fallback
  proof
    assume h: "\<not> nullish parsed
          \<and> readFileSync (resolvePath [rootDir options, ''package.json'']) = Some packageContent
          \<and> JSON_parse packageContent = Some packageJson
          \<and> nullish (optional_prop parsed ''version'')
          \<and> optional_prop packageJson ''version'' = JStr ''1.2.3''
          \<and> truthy (coalesce (optional_prop parsed ''name'') (optional_prop packageJson ''name''))"
    then have np: "\<not> nullish parsed"
      and pc: "readFileSync (resolvePath [rootDir options, ''package.json'']) = Some packageContent"
      and pp: "JSON_parse packageContent = Some packageJson"
      and nv: "nullish (optional_prop parsed ''version'')"
      and pv: "optional_prop packageJson ''version'' = JStr ''1.2.3''"
      and tn: "truthy (coalesce (optional_prop parsed ''name'') (optional_prop packageJson ''name''))"
      by simp_all
    have pkg: "read_packageJson resolvePath readFileSync JSON_parse (rootDir options) = (Inr packageJson, [])"
      using pc pp by (rule packageJson_read)
    from pv have pj: "\<not> nullish packageJson" by (cases packageJson) simp_all
    from nv pv have v: "coalesce (optional_prop parsed ''version'') (optional_prop packageJson ''version'') = JStr ''1.2.3''"
      by (simp add: coalesce_def)
    note body = body_main [of readFileSync resolvePath options, OF assms(1,2) np pkg pj]
    obtain m where "build_manifest (resolvedManifestPath resolvePath options) parsed
           (coalesce (optional_prop parsed ''name'') (optional_prop packageJson ''name''))
           (JStr ''1.2.3'')
           (coalesce (coalesce (optional_prop parsed ''author'') (optional_prop packageJson ''author'')) JNull)
           (coalesce (coalesce (optional_prop parsed ''homepage'') (optional_prop packageJson ''homepage'')) JNull)
          = (Inr (Some m), [Console_log ([CHR 0xC3, CHR 0xA2, CHR 0xC5, CHR 0x93, CHR 0xE2, CHR 0x80, CHR 0x9C] @ '' [@haexhub/sdk] Loaded ''
                @ resolvedManifestPath resolvePath options)])"
      and "version m = JStr ''1.2.3''"
      using build_manifest_fields [OF np] by blast
    with body tn v have "readManifest_body resolvePath readFileSync JSON_parse options =
        (Inr (Some m), [Console_log ([CHR 0xC3, CHR 0xA2, CHR 0xC5, CHR 0x93, CHR 0xE2, CHR 0x80, CHR 0x9C] @ '' [@haexhub/sdk] Loaded ''
                @ resolvedManifestPath resolvePath options)])"
      and "version m = JStr ''1.2.3''"
      by simp_all
    then show "\<exists>m out. readManifest resolvePath readFileSync JSON_parse options = (Inr (Some m), out)
               \<and> version m = JStr ''1.2.3''"
      using readManifest_returned by blast
  qed
  show ?precedence
  proof (intro allI impI)
    fix m out
    assume "readManifest resolvePath readFileSync JSON_parse options = (Inr (Some m), out)"
    from readManifest_some_fields [OF this] assms(1,2)
    obtain pj where
      "name m = coalesce (optional_prop parsed ''name'') (optional_prop pj ''name'')"
      "version m = coalesce (optional_prop parsed ''version'') (optional_prop pj ''version'')"
      "author m = coalesce (coalesce (optional_prop parsed ''author'') (optional_prop pj ''author'')) JNull"
      "homepage m = coalesce (coalesce (optional_prop parsed ''homepage'') (optional_prop pj ''homepage'')) JNull"
      by (elim exE conjE) simp
    then show "(\<not> nullish (optional_prop parsed ''name'') \<longrightarrow> name m = optional_prop parsed ''name'')
          \<and> (\<not> nullish (optional_prop parsed ''version'') \<longrightarrow> version m = optional_prop parsed ''version'')
          \<and> (\<not> nullish (optional_prop parsed ''author'') \<longrightarrow> author m = optional_prop parsed ''author'')
          \<and> (\<not> nullish (optional_prop parsed ''homepage'') \<longrightarrow> homepage m = optional_prop parsed ''homepage'')"
      by (simp add: coalesce_def)
  qed
qed

text \<open>
  The theorem at work on two inputs. A manifest with a name and an author but no version,
  beside a \<open>package.json\<close> with other values for both and the version \<open>1.2.3\<close>: the name
  and the author are the manifest's, the version is that of \<open>package.json\<close>. And a manifest
  with a name and a version where there is no \<open>package.json\<close> to read: a manifest is
  returned, and both are the manifest's.
\<close>

theorem readManifest_version_fallback_witness:
  "(\<exists>m out.
     readManifest (join ''/'')
       (map_of [(''/ext/haextension/manifest.json'', ''{\"name\":\"ext\",\"author\":\"me\"}''),
                (''/ext/package.json'', ''{\"name\":\"pkg\",\"version\":\"1.2.3\",\"author\":\"you\"}'')])
       (map_of [(''{\"name\":\"ext\",\"author\":\"me\"}'',
                   JObj [(''name'', JStr ''ext''), (''author'', JStr ''me'')]),
                (''{\"name\":\"pkg\",\"version\":\"1.2.3\",\"author\":\"you\"}'',
                   JObj [(''name'', JStr ''pkg''), (''version'', JStr ''1.2.3''), (''author'', JStr ''you'')])])
       \<lparr>rootDir = ''/ext'', manifestPath = None, extensionDir = None\<rparr> = (Inr (Some m), out)
     \<and> version m = JStr ''1.2.3'' \<and> name m = JStr ''ext'' \<and> author m = JStr ''me'')
 \<and> (\<exists>m out.
     readManifest (join ''/'')
       (map_of [(''/ext/haextension/manifest.json'', ''{\"name\":\"ext\",\"version\":\"2.0.0\"}'')])
       (map_of [(''{\"name\":\"ext\",\"version\":\"2.0.0\"}'',
                   JObj [(''name'', JStr ''ext''), (''version'', JStr ''2.0.0'')])])
       \<lparr>rootDir = ''/ext'', manifestPath = None, extensionDir = None\<rparr> = (Inr (Some m), out)
     \<and> name m = JStr ''ext'' \<and> version m = JStr ''2.0.0'')"
proof
  show "\<exists>m out.
     readManifest (join ''/'')
       (map_of [(''/ext/haextension/manifest.json'', ''{\"name\":\"ext\",\"author\":\"me\"}''),
                (''/ext/package.json'', ''{\"name\":\"pkg\",\"version\":\"1.2.3\",\"author\":\"you\"}'')])
       (map_of [(''{\"name\":\"ext\",\"author\":\"me\"}'',
                   JObj [(''name'', JStr ''ext''), (''author'', JStr ''me'')]),
                (''{\"name\":\"pkg\",\"version\":\"1.2.3\",\"author\":\"you\"}'',
                   JObj [(''name'', JStr ''pkg''), (''version'', JStr ''1.2.3''), (''author'', JStr ''you'')])])
       \<lparr>rootDir = ''/ext'', manifestPath = None, extensionDir = None\<rparr> = (Inr (Some m), out)
     \<and> version m = JStr ''1.2.3'' \<and> name m = JStr ''ext'' \<and> author m = JStr ''me''"
    using readManifest_version_fallback
      [of "map_of [(''/ext/haextension/manifest.json'', ''{\"name\":\"ext\",\"author\":\"me\"}''),
                  (''/ext/package.json'', ''{\"name\":\"pkg\",\"version\":\"1.2.3\",\"author\":\"you\"}'')]"
          "join ''/''"
          "\<lparr>rootDir = ''/ext'', manifestPath = None, extensionDir = None\<rparr>"
          "''{\"name\":\"ext\",\"author\":\"me\"}''"
          "map_of [(''{\"name\":\"ext\",\"author\":\"me\"}'',
                     JObj [(''name'', JStr ''ext''), (''author'', JStr ''me'')]),
                  (''{\"name\":\"pkg\",\"version\":\"1.2.3\",\"author\":\"you\"}'',
                     JObj [(''name'', JStr ''pkg''), (''version'', JStr ''1.2.3''), (''author'', JStr ''you'')])]"
          "JObj [(''name'', JStr ''ext''), (''author'', JStr ''me'')]"
          "''{\"name\":\"pkg\",\"version\":\"1.2.3\",\"author\":\"you\"}''"
          "JObj [(''name'', JStr ''pkg''), (''version'', JStr ''1.2.3''), (''author'', JStr ''you'')]"]
    by (simp add: resolvedManifestPath_def coalesce_def) blast
next
  have returned: "\<exists>m out.
     readManifest (join ''/'')
       (map_of [(''/ext/haextension/manifest.json'', ''{\"name\":\"ext\",\"version\":\"2.0.0\"}'')])
       (map_of [(''{\"name\":\"ext\",\"version\":\"2.0.0\"}'',
                   JObj [(''name'', JStr ''ext''), (''version'', JStr ''2.0.0'')])])
       \<lparr>rootDir = ''/ext'', manifestPath = None, extensionDir = None\<rparr> = (Inr (Some m), out)"
    by (simp add: readManifest_def readManifest_body_def try_catch_def resolvedManifestPath_def
          read_file_def parse_json_def read_packageJson_eq io_bind_return get_prop_eq
          coalesce_io_return console_warn_def io_bind_Inr build_manifest_eq coalesce_def)
  then show "\<exists>m out.
     readManifest (join ''/'')
       (map_of [(''/ext/haextension/manifest.json'', ''{\"name\":\"ext\",\"version\":\"2.0.0\"}'')])
       (map_of [(''{\"name\":\"ext\",\"version\":\"2.0.0\"}'',
                   JObj [(''name'', JStr ''ext''), (''version'', JStr ''2.0.0'')])])
       \<lparr>rootDir = ''/ext'', manifestPath = None, extensionDir = None\<rparr> = (Inr (Some m), out)
     \<and> name m = JStr ''ext'' \<and> version m = JStr ''2.0.0''"
    using readManifest_version_fallback
      [of "map_of [(''/ext/haextension/manifest.json'', ''{\"name\":\"ext\",\"version\":\"2.0.0\"}'')]"
          "join ''/''"
          "\<lparr>rootDir = ''/ext'', manifestPath = None, extensionDir = None\<rparr>"
          "''{\"name\":\"ext\",\"version\":\"2.0.0\"}''"
          "map_of [(''{\"name\":\"ext\",\"version\":\"2.0.0\"}'',
                     JObj [(''name'', JStr ''ext''), (''version'', JStr ''2.0.0'')])]"
          "JObj [(''name'', JStr ''ext''), (''version'', JStr ''2.0.0'')]"
          "[]" JNull]
    by (simp add: resolvedManifestPath_def) blast
qed

text \<open>
  Claim C7 as it is written fails on two inputs, both with a \<open>package.json\<close> that has the
  name \<open>pkg\<close> and the version \<open>1.2.3\<close>. A manifest \<open>{"name": ""}\<close> parses and has no
  version; its empty name is not \<open>null\<close>, so \<open>??\<close> keeps it, \<open>!name\<close> then holds, and the
  result is \<open>null\<close> although \<open>package.json\<close> has a name. A manifest file \<open>null\<close> parses
  and has no version either; reading \<open>parsed.name\<close> throws, and the outer handler returns
  \<open>null\<close>.
\<close>

theorem readManifest_empty_name_counterexample:
  "readManifest (join ''/'')
     (map_of [(''/ext/haextension/manifest.json'', ''{\"name\":\"\"}''),
              (''/ext/package.json'', ''{\"name\":\"pkg\",\"version\":\"1.2.3\"}'')])
     (map_of [(''{\"name\":\"\"}'', JObj [(''name'', JStr [])]),
              (''{\"name\":\"pkg\",\"version\":\"1.2.3\"}'',
                 JObj [(''name'', JStr ''pkg''), (''version'', JStr ''1.2.3'')])])
     \<lparr>rootDir = ''/ext'', manifestPath = None, extensionDir = None\<rparr>
   = (Inr None, [Console_warn ''[@haexhub/sdk] Warning: No name found in manifest or package.json''])
   \<and> readManifest (join ''/'')
     (map_of [(''/ext/haextension/manifest.json'', ''null''),
              (''/ext/package.json'', ''{\"name\":\"pkg\",\"version\":\"1.2.3\"}'')])
     (map_of [(''null'', JNull),
              (''{\"name\":\"pkg\",\"version\":\"1.2.3\"}'',
                 JObj [(''name'', JStr ''pkg''), (''version'', JStr ''1.2.3'')])])
     \<lparr>rootDir = ''/ext'', manifestPath = None, extensionDir = None\<rparr>
   = (Inr None, [Console_warn ''[@haexhub/sdk] Warning: manifest.json not found at /ext/haextension/manifest.json, extension info will not be available''])"
  by (simp add: readManifest_def readManifest_body_def try_catch_def resolvedManifestPath_def
        read_file_def parse_json_def read_packageJson_eq io_bind_return io_bind_throw get_prop_eq
        coalesce_io_return coalesce_io_throw console_warn_def io_bind_Inr)
    (simp add: io_return_def io_throw_def)

end
